theory Spec2Isabelle
  imports Main
begin

text \<open>
  The client library \<^verbatim>\<open>@montarist/airalo-api\<close>: the error class and the mapping of
  transport failures to it, the request pipeline of \<^verbatim>\<open>AiraloService\<close> (\<^verbatim>\<open>authenticate\<close>,
  \<^verbatim>\<open>getHeaders\<close>, \<^verbatim>\<open>handleRequest\<close>) and its endpoint methods. Asynchronous methods are
  functions from the instance to what they resolve or reject with and the instance
  afterwards; the remote side is a parameter.
\<close>

section \<open>The error taxonomy (interfaces/error.interface.ts)\<close>

text \<open>
  JavaScript numbers that the library only compares or passes on (error codes, HTTP
  statuses, identifiers, quantities) are integers here.
\<close>

type_synonym number = int

text \<open>
  A JSON value: what the remote side puts into a member that the library does not check,
  and the objects that the library passes to the transport as they are.
\<close>

datatype json =
    JNull
  | JBool bool
  | JNumber number
  | JString string
  | JArray "json list"
  | JObject "(string \<times> json) list"

text \<open>The enum \<^verbatim>\<open>AiraloErrorCode\<close> and the number of each member.\<close>

datatype AiraloErrorCode =
    INSUFFICIENT_CREDIT
  | OPERATOR_MAINTENANCE
  | INVALID_CHECKSUM
  | TOPUP_DISABLED
  | INSUFFICIENT_STOCK
  | PACKAGE_INVALID
  | BAD_REQUEST
  | UNEXPECTED_ERROR

fun code_number :: "AiraloErrorCode \<Rightarrow> number" where
  "code_number INSUFFICIENT_CREDIT = 11"
| "code_number OPERATOR_MAINTENANCE = 13"
| "code_number INVALID_CHECKSUM = 14"
| "code_number TOPUP_DISABLED = 23"
| "code_number INSUFFICIENT_STOCK = 33"
| "code_number PACKAGE_INVALID = 34"
| "code_number BAD_REQUEST = 43"
| "code_number UNEXPECTED_ERROR = 53"

fun member_name :: "AiraloErrorCode \<Rightarrow> string" where
  "member_name INSUFFICIENT_CREDIT = ''INSUFFICIENT_CREDIT''"
| "member_name OPERATOR_MAINTENANCE = ''OPERATOR_MAINTENANCE''"
| "member_name INVALID_CHECKSUM = ''INVALID_CHECKSUM''"
| "member_name TOPUP_DISABLED = ''TOPUP_DISABLED''"
| "member_name INSUFFICIENT_STOCK = ''INSUFFICIENT_STOCK''"
| "member_name PACKAGE_INVALID = ''PACKAGE_INVALID''"
| "member_name BAD_REQUEST = ''BAD_REQUEST''"
| "member_name UNEXPECTED_ERROR = ''UNEXPECTED_ERROR''"

definition AiraloErrorCode_values :: "AiraloErrorCode list" where
  "AiraloErrorCode_values =
     [INSUFFICIENT_CREDIT, OPERATOR_MAINTENANCE, INVALID_CHECKSUM, TOPUP_DISABLED,
      INSUFFICIENT_STOCK, PACKAGE_INVALID, BAD_REQUEST, UNEXPECTED_ERROR]"

text \<open>
  A value of the enum object. A numeric enum compiles to an object that maps every
  member name to its number and, by the reverse mapping, every number to its member
  name; \<^verbatim>\<open>Object.values(AiraloErrorCode)\<close> lists the eight names and the eight numbers.
\<close>

datatype code_value = Member AiraloErrorCode | MemberName AiraloErrorCode

text \<open>
  \<^verbatim>\<open>Object.values(AiraloErrorCode).includes(errorCode)\<close>, returning the value found.
  \<^verbatim>\<open>errorCode\<close> is the member \<^verbatim>\<open>code\<close> of the response body as it came (the cast
  \<^verbatim>\<open>as number\<close> checks nothing), and \<^verbatim>\<open>includes\<close> compares without conversion: a number
  matches a number of the enum, a string matches a member name, nothing else matches.
\<close>

fun includes_code :: "json \<Rightarrow> code_value option" where
  "includes_code (JNumber n) =
     map_option Member (find (\<lambda>c. code_number c = n) AiraloErrorCode_values)"
| "includes_code (JString s) =
     map_option MemberName (find (\<lambda>c. member_name c = s) AiraloErrorCode_values)"
| "includes_code v = None"

fun AiraloErrorMessages :: "AiraloErrorCode \<Rightarrow> string" where
  "AiraloErrorMessages INSUFFICIENT_CREDIT = ''Insufficient Airalo Credit''"
| "AiraloErrorMessages OPERATOR_MAINTENANCE =
     ''The requested operator is currently undergoing maintenance. Please try again later.''"
| "AiraloErrorMessages INVALID_CHECKSUM = ''Invalid checksum''"
| "AiraloErrorMessages TOPUP_DISABLED =
     ''The requested top-up has been disabled by the operator''"
| "AiraloErrorMessages INSUFFICIENT_STOCK = ''Insufficient stock of eSIMs remaining''"
| "AiraloErrorMessages PACKAGE_INVALID =
     ''The requested eSIM package is invalid or it is currently out of stock. Please try again later.''"
| "AiraloErrorMessages BAD_REQUEST = ''Bad request''"
| "AiraloErrorMessages UNEXPECTED_ERROR =
     ''Something unexpected happened. We're working to resolve the issue. Please try again later.''"


text \<open>
  \<^verbatim>\<open>AiraloErrorMessages[code]\<close> for a value of the enum object: the keys of the table are
  the numbers, so a member name finds nothing (\<^verbatim>\<open>undefined\<close>, here \<open>None\<close>).
\<close>

fun message_at :: "code_value \<Rightarrow> string option" where
  "message_at (Member c) = Some (AiraloErrorMessages c)"
| "message_at (MemberName c) = None"

text \<open>
  JavaScript truthiness of an optional string and of an optional JSON value:
  \<^verbatim>\<open>undefined\<close>, \<^verbatim>\<open>null\<close>, \<^verbatim>\<open>false\<close>, \<^verbatim>\<open>0\<close> and the empty string are falsy.
\<close>

fun truthy_string :: "string option \<Rightarrow> bool" where
  "truthy_string None = False"
| "truthy_string (Some s) = (s \<noteq> [])"

fun truthy_json :: "json option \<Rightarrow> bool" where
  "truthy_json None = False"
| "truthy_json (Some JNull) = False"
| "truthy_json (Some (JBool b)) = b"
| "truthy_json (Some (JNumber n)) = (n \<noteq> 0)"
| "truthy_json (Some (JString s)) = (s \<noteq> [])"
| "truthy_json (Some (JArray vs)) = True"
| "truthy_json (Some (JObject ms)) = True"

text \<open>The operator \<^verbatim>\<open>a || b\<close> on optional strings, and \<^verbatim>\<open>a || 500\<close> on an optional number.\<close>

definition or_string :: "string option \<Rightarrow> string option \<Rightarrow> string option" where
  "or_string a b = (if truthy_string a then a else b)"

definition or_number :: "number option \<Rightarrow> number \<Rightarrow> number" where
  "or_number a d = (case a of None \<Rightarrow> d | Some n \<Rightarrow> if n \<noteq> 0 then n else d)"

text \<open>
  The class \<^verbatim>\<open>AiraloError\<close>: the three constructor parameters are public fields;
  \<^verbatim>\<open>message\<close> and \<^verbatim>\<open>name\<close> are those of \<^verbatim>\<open>Error\<close>.
\<close>

record AiraloError =
  code :: code_value
  additionalInfo :: "string option"
  statusCode :: number
  message :: string
  name :: string

text \<open>
  The constructor, on any value of the enum object as its first argument. The third
  argument is optional: left out (\<open>None\<close>), the default parameter value 422 is taken.
  In the template \<^verbatim>\<open>undefined\<close> prints as \<^verbatim>\<open>undefined\<close>, and \<^verbatim>\<open>super(undefined)\<close> leaves
  the message empty.
\<close>

definition construct_AiraloError ::
  "code_value \<Rightarrow> string option \<Rightarrow> number option \<Rightarrow> AiraloError" where
  "construct_AiraloError c info status =
     (let baseMessage = message_at c;
          fullMessage =
            (case info of
               None \<Rightarrow> baseMessage
             | Some s \<Rightarrow>
                 if truthy_string (Some s)
                 then Some ((case baseMessage of None \<Rightarrow> ''undefined'' | Some m \<Rightarrow> m) @ '': '' @ s)
                 else baseMessage)
      in \<lparr> code = c,
           additionalInfo = info,
           statusCode = (case status of None \<Rightarrow> 422 | Some n \<Rightarrow> n),
           message = (case fullMessage of None \<Rightarrow> [] | Some m \<Rightarrow> m),
           name = ''AiraloError'' \<rparr>)"

text \<open>The constructor as its signature types it: the code is a member of the enum.\<close>

definition new_AiraloError ::
  "AiraloErrorCode \<Rightarrow> string option \<Rightarrow> number option \<Rightarrow> AiraloError" where
  "new_AiraloError c info status = construct_AiraloError (Member c) info status"

text \<open>The interface \<^verbatim>\<open>AiraloErrorResponse\<close> and the method \<^verbatim>\<open>toResponse\<close>.\<close>

record AiraloErrorResponse =
  r_message :: string
  r_errors :: "(string \<times> string list) list option"
  r_code :: "code_value option"
  r_status_code :: number
  r_additional_info :: "string option"

definition toResponse :: "AiraloError \<Rightarrow> AiraloErrorResponse" where
  "toResponse this =
     \<lparr> r_message = message this,
       r_errors = None,
       r_code = Some (code this),
       r_status_code = statusCode this,
       r_additional_info = additionalInfo this \<rparr>"

section \<open>Raw transport failures and their mapping (handleAxiosError)\<close>

text \<open>
  What the handler reads of the failure it is given: \<^verbatim>\<open>error.message\<close>,
  \<^verbatim>\<open>error.response?.status\<close> and, of \<^verbatim>\<open>error.response?.data\<close>, the members \<^verbatim>\<open>code\<close>,
  \<^verbatim>\<open>additional_info\<close> and \<^verbatim>\<open>message\<close>. Every member may be missing, and \<^verbatim>\<open>code\<close> is
  whatever JSON value the body carries.
\<close>

record ErrorData =
  data_code :: "json option"
  data_additional_info :: "string option"
  data_message :: "string option"

record ErrorResponse =
  status :: number
  error_data :: "ErrorData option"

record AxiosError =
  error_message :: "string option"
  response :: "ErrorResponse option"

text \<open>The optional chains \<^verbatim>\<open>error.response?.status\<close> and \<^verbatim>\<open>error.response?.data?.code\<close>.\<close>

definition response_status :: "AxiosError \<Rightarrow> number option" where
  "response_status error = map_option status (response error)"

definition response_data :: "AxiosError \<Rightarrow> ErrorData option" where
  "response_data error = Option.bind (response error) error_data"

definition response_data_code :: "AxiosError \<Rightarrow> json option" where
  "response_data_code error = Option.bind (response_data error) data_code"

text \<open>
  \<^verbatim>\<open>handleAxiosError\<close> always throws; the function returns the \<^verbatim>\<open>AiraloError\<close> thrown.
\<close>

definition handleAxiosError :: "AxiosError \<Rightarrow> AiraloError" where
  "handleAxiosError error =
     (let unexpected =
            new_AiraloError UNEXPECTED_ERROR (error_message error)
              (Some (or_number (response_status error) 500))
      in if response_status error = Some 422 \<and> truthy_json (response_data_code error) then
           (case (response_data_code error, response_data error) of
              (Some errorCode, Some d) \<Rightarrow>
                (let additionalInfo = or_string (data_additional_info d) (data_message d)
                 in case includes_code errorCode of
                      Some c \<Rightarrow> construct_AiraloError c additionalInfo None
                    | None \<Rightarrow> unexpected)
            | _ \<Rightarrow> unexpected)
         else unexpected)"

section \<open>Requests, the transport and the state of a service instance\<close>

datatype http_verb = GET | POST | PUT

datatype param_value = PString string | PNumber number

datatype request_data = NoData | FormData "(string \<times> string) list" | JsonData json

text \<open>
  One call of the axios instance: the verb, the path, and the members \<^verbatim>\<open>headers\<close> and
  \<^verbatim>\<open>params\<close> of the configuration object, in the key order of the source. A member of
  \<^verbatim>\<open>params\<close> whose value is \<^verbatim>\<open>undefined\<close> is \<open>None\<close>.
\<close>

record request =
  verb :: http_verb
  url :: string
  headers :: "(string \<times> string) list"
  params :: "(string \<times> param_value option) list"
  req_data :: request_data

text \<open>The query of a request: the parameters that have a value.\<close>

definition query :: "request \<Rightarrow> (string \<times> param_value) list" where
  "query req = List.map_filter (\<lambda>(k, v). map_option (Pair k) v) (params req)"

text \<open>The headers of a request that are named \<^verbatim>\<open>Authorization\<close>.\<close>

definition authorization :: "request \<Rightarrow> (string \<times> string) list" where
  "authorization req = filter (\<lambda>h. fst h = ''Authorization'') (headers req)"

text \<open>
  What an instance does to the outside world, in order: the requests handed to the
  transport and the delays it waits (\<^verbatim>\<open>setTimeout\<close>, in milliseconds).
\<close>

datatype event = Sent request | Sleep nat

record AiraloConfig =
  baseUrl :: string
  clientId :: string
  clientSecret :: string

text \<open>
  The fields of \<^verbatim>\<open>AiraloService\<close> that are data: \<^verbatim>\<open>config\<close> and \<^verbatim>\<open>accessToken\<close>
  (\<open>None\<close> is \<^verbatim>\<open>undefined\<close>). \<open>trace\<close> is the log of events of the instance so far.
\<close>

record AiraloService =
  config :: AiraloConfig
  accessToken :: "string option"
  trace :: "event list"

definition maxRetries :: nat where
  "maxRetries = 3"

definition retryDelay :: nat where
  "retryDelay = 1000"

text \<open>
  A value a promise rejects with: a failure of the transport as axios reports it, an
  \<^verbatim>\<open>AiraloError\<close>, or the \<^verbatim>\<open>TypeError\<close> that the engine throws when a property of
  \<^verbatim>\<open>undefined\<close> is read. \<open>thrown_status\<close> is \<^verbatim>\<open>error.response?.status\<close> as
  \<^verbatim>\<open>handleRequest\<close> reads it: an \<^verbatim>\<open>AiraloError\<close> has the members \<^verbatim>\<open>code\<close>,
  \<^verbatim>\<open>additionalInfo\<close>, \<^verbatim>\<open>statusCode\<close>, \<^verbatim>\<open>message\<close> and \<^verbatim>\<open>name\<close>, and no member
  \<^verbatim>\<open>response\<close>; neither has a \<^verbatim>\<open>TypeError\<close>.
\<close>

datatype thrown = Raw AxiosError | Mapped AiraloError | TypeError

fun thrown_status :: "thrown \<Rightarrow> number option" where
  "thrown_status (Raw error) = response_status error"
| "thrown_status (Mapped error) = None"
| "thrown_status TypeError = None"

record 'a AxiosResponse =
  data :: 'a

text \<open>
  The body of the answer to the login request, as far as \<^verbatim>\<open>authenticate\<close> reads it. The
  interface \<^verbatim>\<open>AiraloAuthResponse\<close> declares \<^verbatim>\<open>{ data: { access_token, token_type,
  expires_in } }\<close>, but the body is whatever the remote side sent: \<open>auth_data\<close> is \<open>None\<close>
  for a body whose member \<^verbatim>\<open>data\<close> is missing or \<^verbatim>\<open>null\<close> (reading a property of it
  throws), and each member of \<^verbatim>\<open>data\<close> may be missing. A token that is present is a
  string.
\<close>

record AiraloAuthData =
  access_token :: "string option"
  token_type :: "string option"
  expires_in :: "number option"

record AiraloAuthResponse =
  auth_data :: "AiraloAuthData option"

text \<open>
  A request thunk \<^verbatim>\<open>() => Promise<{ data: T }>\<close>: run on the log, it resolves or rejects
  and extends the log.
\<close>

type_synonym 'a thunk = "event list \<Rightarrow> (thrown + 'a AxiosResponse) \<times> event list"

text \<open>
  The remote side, which is not part of the library: any function from the log so far
  and the request to a failure or a response. The answer of the login endpoint is read
  as described above; the payload of every other endpoint is handed to the caller
  unread, at the type \<open>'a\<close>.
\<close>

type_synonym 'a server = "event list \<Rightarrow> request \<Rightarrow> AxiosError + 'a AxiosResponse"

record 'a network =
  token_server :: "AiraloAuthResponse server"
  api_server :: "'a server"

text \<open>
  The transport under the handlers of the instance. Sending one request: the request is
  logged and the remote side answers.
\<close>

type_synonym 'a transport = "event list \<Rightarrow> (AxiosError + 'a AxiosResponse) \<times> event list"

definition dispatch :: "'a server \<Rightarrow> request \<Rightarrow> 'a transport" where
  "dispatch server req tr = (server tr req, tr @ [Sent req])"

text \<open>
  The pair of handlers that the constructor installs with
  \<^verbatim>\<open>interceptors.response.use\<close>: a response passes, a failure goes through
  \<^verbatim>\<open>handleAxiosError\<close>, which rejects with the \<^verbatim>\<open>AiraloError\<close>.
\<close>

definition response_interceptors :: "'a transport \<Rightarrow> 'a thunk" where
  "response_interceptors send tr =
     (case send tr of
        (Inr resp, tr') \<Rightarrow> (Inr resp, tr')
      | (Inl error, tr') \<Rightarrow> (Inl (Mapped (handleAxiosError error)), tr'))"

text \<open>Without handlers, a failure of the transport is what the call rejects with.\<close>

definition no_interceptors :: "'a transport \<Rightarrow> 'a thunk" where
  "no_interceptors send tr =
     (case send tr of
        (Inr resp, tr') \<Rightarrow> (Inr resp, tr')
      | (Inl error, tr') \<Rightarrow> (Inl (Raw error), tr'))"

text \<open>
  The axios instance of a service, at the two types it is called at: for the login call
  and for the calls of the endpoint methods.
\<close>

record 'a AxiosInstance =
  baseURL :: string
  default_headers :: "(string \<times> string) list"
  request_token :: "request \<Rightarrow> AiraloAuthResponse thunk"
  request_api :: "request \<Rightarrow> 'a thunk"

text \<open>The instance the constructor builds: \<^verbatim>\<open>axios.create\<close>, then the interceptors.\<close>

definition axios_create :: "AiraloConfig \<Rightarrow> 'a network \<Rightarrow> 'a AxiosInstance" where
  "axios_create cfg net =
     \<lparr> baseURL = baseUrl cfg,
       default_headers = [(''Accept'', ''application/json'')],
       request_token = (\<lambda>req. response_interceptors (dispatch (token_server net) req)),
       request_api = (\<lambda>req. response_interceptors (dispatch (api_server net) req)) \<rparr>"

text \<open>
  The instance of the test-suite (\<^verbatim>\<open>jest.mock('axios')\<close>): \<^verbatim>\<open>interceptors.response.use\<close>
  only records the handler, and \<^verbatim>\<open>get\<close> and \<^verbatim>\<open>post\<close> resolve or reject with the scripted
  values as they are.
\<close>

definition axios_mock :: "AiraloConfig \<Rightarrow> 'a network \<Rightarrow> 'a AxiosInstance" where
  "axios_mock cfg net =
     \<lparr> baseURL = baseUrl cfg,
       default_headers = [(''Accept'', ''application/json'')],
       request_token = (\<lambda>req. no_interceptors (dispatch (token_server net) req)),
       request_api = (\<lambda>req. no_interceptors (dispatch (api_server net) req)) \<rparr>"

text \<open>The data fields of a new instance.\<close>

definition new_AiraloService :: "AiraloConfig \<Rightarrow> AiraloService" where
  "new_AiraloService cfg = \<lparr> config = cfg, accessToken = None, trace = [] \<rparr>"

section \<open>The request pipeline (services/airalo.service.ts)\<close>

text \<open>
  The outcome of an asynchronous method: \<open>None\<close> when it does not return, otherwise the
  value it resolves with (\<open>Inr\<close>) or rejects with (\<open>Inl\<close>), and the instance afterwards.
\<close>

type_synonym 'a outcome = "((thrown + 'a) \<times> AiraloService) option"

text \<open>
  \<^verbatim>\<open>handleRequest\<close>. Its first argument is the method \<^verbatim>\<open>this.authenticate\<close>, which is
  defined from \<^verbatim>\<open>handleRequest\<close> below.
\<close>

function handleRequest ::
  "(AiraloService \<Rightarrow> unit outcome) \<Rightarrow> 'a thunk \<Rightarrow> nat \<Rightarrow> AiraloService \<Rightarrow> 'a outcome" where
  "handleRequest authenticate requestFn retryCount this =
     (case requestFn (trace this) of
        (Inr resp, tr) \<Rightarrow> Some (Inr (data resp), this\<lparr>trace := tr\<rparr>)
      | (Inl error, tr) \<Rightarrow>
          if thrown_status error = Some 401 \<and> retryCount < 1 then
            (case authenticate (this\<lparr>trace := tr, accessToken := None\<rparr>) of
               None \<Rightarrow> None
             | Some (Inl e, this') \<Rightarrow> Some (Inl e, this')
             | Some (Inr _, this') \<Rightarrow> handleRequest authenticate requestFn (retryCount + 1) this')
          else if thrown_status error = Some 429 \<and> retryCount < maxRetries then
            handleRequest authenticate requestFn (retryCount + 1)
              (this\<lparr>trace := tr @ [Sleep (retryDelay * (retryCount + 1))]\<rparr>)
          else Some (Inl error, this\<lparr>trace := tr\<rparr>))"
  by pat_completeness auto
termination
  by (relation "measure (\<lambda>(authenticate, requestFn, retryCount, this). maxRetries - retryCount)")
    (auto simp: maxRetries_def)

declare handleRequest.simps [simp del]

text \<open>The login request that \<^verbatim>\<open>authenticate\<close> builds.\<close>

definition token_request :: "AiraloConfig \<Rightarrow> request" where
  "token_request cfg =
     \<lparr> verb = POST,
       url = ''/v2/token'',
       headers = [],
       params = [],
       req_data = FormData [(''client_id'', clientId cfg),
                            (''client_secret'', clientSecret cfg),
                            (''grant_type'', ''client_credentials'')] \<rparr>"

text \<open>
  \<^verbatim>\<open>authenticate\<close>. The first argument bounds how deep calls of \<^verbatim>\<open>authenticate\<close> nest
  (a login that is itself answered 401 calls \<^verbatim>\<open>authenticate\<close> again); with the bound
  used up the call has not returned. The last statement,
  \<^verbatim>\<open>this.accessToken = response.data.access_token\<close>, runs on the body of the answer
  after \<^verbatim>\<open>handleRequest\<close> has resolved, outside every \<^verbatim>\<open>try\<close>: without a member \<^verbatim>\<open>data\<close>
  it throws a \<^verbatim>\<open>TypeError\<close>, and otherwise it stores the member \<^verbatim>\<open>access_token\<close>, also
  when that is \<^verbatim>\<open>undefined\<close>.
\<close>

primrec authenticate :: "nat \<Rightarrow> 'a AxiosInstance \<Rightarrow> AiraloService \<Rightarrow> unit outcome" where
  "authenticate 0 ax this = None"
| "authenticate (Suc k) ax this =
     (case handleRequest (authenticate k ax) (request_token ax (token_request (config this))) 0 this of
        None \<Rightarrow> None
      | Some (Inl e, this') \<Rightarrow> Some (Inl e, this')
      | Some (Inr resp, this') \<Rightarrow>
          (case auth_data resp of
             None \<Rightarrow> Some (Inl TypeError, this')
           | Some d \<Rightarrow> Some (Inr (), this'\<lparr>accessToken := access_token d\<rparr>)))"

text \<open>Sequencing: \<^verbatim>\<open>await\<close> of an outcome, then the rest of the method.\<close>

definition await :: "'a outcome \<Rightarrow> ('a \<Rightarrow> AiraloService \<Rightarrow> 'b outcome) \<Rightarrow> 'b outcome" where
  "await m rest =
     (case m of
        None \<Rightarrow> None
      | Some (Inl e, this) \<Rightarrow> Some (Inl e, this)
      | Some (Inr x, this) \<Rightarrow> rest x this)"

text \<open>The template \<^verbatim>\<open>`Bearer ${this.accessToken}`\<close>.\<close>

definition bearer :: "string option \<Rightarrow> string" where
  "bearer token = ''Bearer '' @ (case token of None \<Rightarrow> ''undefined'' | Some t \<Rightarrow> t)"

definition getHeaders ::
  "nat \<Rightarrow> 'a AxiosInstance \<Rightarrow> AiraloService \<Rightarrow> (string \<times> string) list outcome" where
  "getHeaders k ax this =
     (if \<not> truthy_string (accessToken this) then
        await (authenticate k ax this)
          (\<lambda>_ this'. Some (Inr [(''Authorization'', bearer (accessToken this'))], this'))
      else Some (Inr [(''Authorization'', bearer (accessToken this))], this))"

section \<open>The endpoint methods\<close>

text \<open>
  \<^verbatim>\<open>Number.prototype.toString\<close> on an integer: its decimal digits, which is what the
  method prints for an integer of magnitude below \<open>10\<^sup>2\<^sup>1\<close> (from there on it prints an
  exponent, which is not modelled).
\<close>

definition digit :: "nat \<Rightarrow> char" where
  "digit d = char_of (48 + d)"

function digits :: "nat \<Rightarrow> string" where
  "digits n = (if n < 10 then [digit n] else digits (n div 10) @ [digit (n mod 10)])"
  by pat_completeness auto
termination
  by (relation "measure id") auto

declare digits.simps [simp del]

definition toString :: "number \<Rightarrow> string" where
  "toString n = (if n < 0 then ''-'' @ digits (nat (- n)) else digits (nat n))"

text \<open>
  The parameter objects. Members of the same name in different interfaces carry the
  interface's initials here (and \<^verbatim>\<open>include\<close> a prime); an optional member is an option.
\<close>

record AiraloOrderListParams =
  include' :: "string option"
  createdAt :: "string option"
  orderStatus :: "string option"
  description :: "string option"
  limit :: "number option"
  page :: "number option"

record AiraloOrderCreateParams =
  oc_package_id :: string
  oc_quantity :: number
  oc_type :: string
  oc_description :: "string option"
  oc_brand_settings_name :: "string option"
  oc_webhook_url :: "string option"

record AiraloOrderAsyncParams = AiraloOrderCreateParams +
  callback_url :: string

record AiraloTopupOrderParams =
  tp_iccid :: string
  tp_package_id :: number
  tp_description :: "string option"

record AiraloSIMListParams =
  sl_include :: "string option"
  sl_limit :: "number option"
  sl_page :: "number option"

record AiraloPackageListParams =
  pl_type :: "string option"
  pl_country :: "string option"
  pl_limit :: "number option"
  pl_page :: "number option"

record PageParams =
  pg_limit :: "number option"
  pg_page :: "number option"

text \<open>\<^verbatim>\<open>if (v) { formData.append(key, v) }\<close>.\<close>

definition append_if :: "string \<Rightarrow> string option \<Rightarrow> (string \<times> string) list \<Rightarrow> (string \<times> string) list" where
  "append_if key v formData =
     (case v of
        None \<Rightarrow> formData
      | Some x \<Rightarrow> if truthy_string (Some x) then formData @ [(key, x)] else formData)"

text \<open>The headers \<^verbatim>\<open>{ ...headers, 'Content-Type': 'multipart/form-data' }\<close>.\<close>

definition multipart :: "(string \<times> string) list \<Rightarrow> (string \<times> string) list" where
  "multipart hs = hs @ [(''Content-Type'', ''multipart/form-data'')]"

text \<open>A method that awaits the request and returns nothing.\<close>

definition void :: "'a outcome \<Rightarrow> unit outcome" where
  "void m = await m (\<lambda>_ this. Some (Inr (), this))"

definition orders_request :: "(string \<times> string) list \<Rightarrow> AiraloOrderListParams \<Rightarrow> request" where
  "orders_request hs ps =
     \<lparr> verb = GET, url = ''/v2/orders'', headers = hs,
       params = [(''include'', map_option PString (include' ps)),
                 (''filter[created_at]'', map_option PString (createdAt ps)),
                 (''filter[order_status]'', map_option PString (orderStatus ps)),
                 (''filter[description]'', map_option PString (description ps)),
                 (''limit'', map_option PNumber (limit ps)),
                 (''page'', map_option PNumber (page ps))],
       req_data = NoData \<rparr>"

text \<open>
  The body every endpoint method has: \<^verbatim>\<open>const headers = await this.getHeaders()\<close>, then
  \<^verbatim>\<open>this.handleRequest\<close> of the thunk that calls the axios instance with the request
  built from these headers (the thunk keeps the headers it was built with).
\<close>

definition endpoint ::
  "nat \<Rightarrow> 'a AxiosInstance \<Rightarrow> ((string \<times> string) list \<Rightarrow> request) \<Rightarrow> AiraloService \<Rightarrow> 'a outcome" where
  "endpoint k ax build this =
     await (getHeaders k ax this)
       (\<lambda>hs. handleRequest (authenticate k ax) (request_api ax (build hs)) 0)"

definition getOrders ::
  "nat \<Rightarrow> 'a AxiosInstance \<Rightarrow> AiraloOrderListParams \<Rightarrow> AiraloService \<Rightarrow> 'a outcome" where
  "getOrders k ax ps = endpoint k ax (\<lambda>hs. orders_request hs ps)"

definition getOrder ::
  "nat \<Rightarrow> 'a AxiosInstance \<Rightarrow> number \<Rightarrow> string option \<Rightarrow> AiraloService \<Rightarrow> 'a outcome" where
  "getOrder k ax orderId incl =
     endpoint k ax
       (\<lambda>hs. \<lparr> verb = GET, url = ''/v2/orders/'' @ toString orderId, headers = hs,
               params = [(''include'', map_option PString incl)], req_data = NoData \<rparr>)"

definition order_form :: "'z AiraloOrderCreateParams_scheme \<Rightarrow> (string \<times> string) list" where
  "order_form orderData =
     append_if ''webhook_url'' (oc_webhook_url orderData)
       (append_if ''brand_settings_name'' (oc_brand_settings_name orderData)
          (append_if ''description'' (oc_description orderData)
             [(''quantity'', toString (oc_quantity orderData)),
              (''package_id'', oc_package_id orderData),
              (''type'', oc_type orderData)]))"

definition createOrder ::
  "nat \<Rightarrow> 'a AxiosInstance \<Rightarrow> AiraloOrderCreateParams \<Rightarrow> AiraloService \<Rightarrow> 'a outcome" where
  "createOrder k ax orderData =
     endpoint k ax
       (\<lambda>hs. \<lparr> verb = POST, url = ''/v2/orders'', headers = multipart hs, params = [],
               req_data = FormData (order_form orderData) \<rparr>)"

definition createAsyncOrder ::
  "nat \<Rightarrow> 'a AxiosInstance \<Rightarrow> AiraloOrderAsyncParams \<Rightarrow> AiraloService \<Rightarrow> 'a outcome" where
  "createAsyncOrder k ax orderData =
     endpoint k ax
       (\<lambda>hs. \<lparr> verb = POST, url = ''/v2/orders-async'', headers = multipart hs, params = [],
               req_data =
                 FormData (append_if ''callback_url'' (Some (callback_url orderData))
                             (order_form orderData)) \<rparr>)"

definition createTopupOrder ::
  "nat \<Rightarrow> 'a AxiosInstance \<Rightarrow> AiraloTopupOrderParams \<Rightarrow> AiraloService \<Rightarrow> 'a outcome" where
  "createTopupOrder k ax orderData =
     endpoint k ax
       (\<lambda>hs. \<lparr> verb = POST, url = ''/v2/orders/topups'', headers = multipart hs, params = [],
               req_data =
                 FormData (append_if ''description'' (tp_description orderData)
                             [(''iccid'', tp_iccid orderData),
                              (''package_id'', toString (tp_package_id orderData))]) \<rparr>)"

definition getOrderStatuses ::
  "nat \<Rightarrow> 'a AxiosInstance \<Rightarrow> PageParams option \<Rightarrow> AiraloService \<Rightarrow> 'a outcome" where
  "getOrderStatuses k ax ps =
     endpoint k ax
       (\<lambda>hs. \<lparr> verb = GET, url = ''/v2/orders/statuses'', headers = hs,
               params =
                 (case ps of
                    None \<Rightarrow> []
                  | Some p \<Rightarrow> [(''limit'', map_option PNumber (pg_limit p)),
                               (''page'', map_option PNumber (pg_page p))]),
               req_data = NoData \<rparr>)"

text \<open>The methods that call \<^verbatim>\<open>get(path, { headers })\<close>.\<close>

definition get_path :: "string \<Rightarrow> (string \<times> string) list \<Rightarrow> request" where
  "get_path path hs =
     \<lparr> verb = GET, url = path, headers = hs, params = [], req_data = NoData \<rparr>"

definition getOrderStatus ::
  "nat \<Rightarrow> 'a AxiosInstance \<Rightarrow> string \<Rightarrow> AiraloService \<Rightarrow> 'a outcome" where
  "getOrderStatus k ax slug = endpoint k ax (get_path (''/v2/orders/statuses/'' @ slug))"

definition getSIMs ::
  "nat \<Rightarrow> 'a AxiosInstance \<Rightarrow> AiraloSIMListParams \<Rightarrow> AiraloService \<Rightarrow> 'a outcome" where
  "getSIMs k ax ps =
     endpoint k ax
       (\<lambda>hs. \<lparr> verb = GET, url = ''/v2/sims'', headers = hs,
               params = [(''include'', map_option PString (sl_include ps)),
                         (''limit'', map_option PNumber (sl_limit ps)),
                         (''page'', map_option PNumber (sl_page ps))],
               req_data = NoData \<rparr>)"

definition getSIM :: "nat \<Rightarrow> 'a AxiosInstance \<Rightarrow> string \<Rightarrow> AiraloService \<Rightarrow> 'a outcome" where
  "getSIM k ax iccid = endpoint k ax (get_path (''/v2/sims/'' @ iccid))"

definition getSIMInstructions ::
  "nat \<Rightarrow> 'a AxiosInstance \<Rightarrow> string \<Rightarrow> AiraloService \<Rightarrow> 'a outcome" where
  "getSIMInstructions k ax iccid =
     endpoint k ax (get_path (''/v2/sims/'' @ iccid @ ''/instructions''))"

definition getSIMUsage :: "nat \<Rightarrow> 'a AxiosInstance \<Rightarrow> string \<Rightarrow> AiraloService \<Rightarrow> 'a outcome" where
  "getSIMUsage k ax iccid = endpoint k ax (get_path (''/v2/sims/'' @ iccid @ ''/usage''))"

definition getSIMBrand :: "nat \<Rightarrow> 'a AxiosInstance \<Rightarrow> string \<Rightarrow> AiraloService \<Rightarrow> 'a outcome" where
  "getSIMBrand k ax iccid = endpoint k ax (get_path (''/v2/sims/'' @ iccid @ ''/brand''))"

definition updateSIMBrand ::
  "nat \<Rightarrow> 'a AxiosInstance \<Rightarrow> string \<Rightarrow> string option \<Rightarrow> AiraloService \<Rightarrow> 'a outcome" where
  "updateSIMBrand k ax iccid brand_settings_name =
     endpoint k ax
       (\<lambda>hs. \<lparr> verb = PUT, url = ''/v2/sims/'' @ iccid @ ''/brand'', headers = multipart hs,
               params = [],
               req_data = FormData (append_if ''brand_settings_name'' brand_settings_name []) \<rparr>)"

definition getSIMPackages ::
  "nat \<Rightarrow> 'a AxiosInstance \<Rightarrow> string \<Rightarrow> AiraloService \<Rightarrow> 'a outcome" where
  "getSIMPackages k ax iccid = endpoint k ax (get_path (''/v2/sims/'' @ iccid @ ''/packages''))"

definition getSIMTopups :: "nat \<Rightarrow> 'a AxiosInstance \<Rightarrow> string \<Rightarrow> AiraloService \<Rightarrow> 'a outcome" where
  "getSIMTopups k ax iccid = endpoint k ax (get_path (''/v2/sims/'' @ iccid @ ''/topups''))"

definition getPackages ::
  "nat \<Rightarrow> 'a AxiosInstance \<Rightarrow> AiraloPackageListParams \<Rightarrow> AiraloService \<Rightarrow> 'a outcome" where
  "getPackages k ax ps =
     endpoint k ax
       (\<lambda>hs. \<lparr> verb = GET, url = ''/v2/packages'', headers = hs,
               params = [(''filter[type]'', map_option PString (pl_type ps)),
                         (''filter[country]'', map_option PString (pl_country ps)),
                         (''limit'', map_option PNumber (pl_limit ps)),
                         (''page'', map_option PNumber (pl_page ps))],
               req_data = NoData \<rparr>)"

definition getCompatibleDevices :: "nat \<Rightarrow> 'a AxiosInstance \<Rightarrow> AiraloService \<Rightarrow> 'a outcome" where
  "getCompatibleDevices k ax = endpoint k ax (get_path ''/v2/compatible-devices'')"

text \<open>The methods that call \<^verbatim>\<open>post(path, data, { headers })\<close> with an object as it is.\<close>

definition post_json :: "string \<Rightarrow> json \<Rightarrow> (string \<times> string) list \<Rightarrow> request" where
  "post_json path body hs =
     \<lparr> verb = POST, url = path, headers = hs, params = [], req_data = JsonData body \<rparr>"

definition optInNotifications ::
  "nat \<Rightarrow> 'a AxiosInstance \<Rightarrow> json \<Rightarrow> AiraloService \<Rightarrow> unit outcome" where
  "optInNotifications k ax body this =
     void (endpoint k ax (post_json ''/v2/notifications/opt-in'' body) this)"

definition optOutNotifications :: "nat \<Rightarrow> 'a AxiosInstance \<Rightarrow> AiraloService \<Rightarrow> unit outcome" where
  "optOutNotifications k ax this =
     void (endpoint k ax (post_json ''/v2/notifications/opt-out'' (JObject [])) this)"

definition simulateWebhook ::
  "nat \<Rightarrow> 'a AxiosInstance \<Rightarrow> json \<Rightarrow> AiraloService \<Rightarrow> unit outcome" where
  "simulateWebhook k ax body this =
     void (endpoint k ax (post_json ''/v2/simulator/webhook'' body) this)"

definition getBalance :: "nat \<Rightarrow> 'a AxiosInstance \<Rightarrow> AiraloService \<Rightarrow> 'a outcome" where
  "getBalance k ax = endpoint k ax (get_path ''/v2/balance'')"

definition redeemESIMVoucher ::
  "nat \<Rightarrow> 'a AxiosInstance \<Rightarrow> json \<Rightarrow> AiraloService \<Rightarrow> 'a outcome" where
  "redeemESIMVoucher k ax body = endpoint k ax (post_json ''/v2/voucher/esim'' body)"

definition redeemAirmoneyVoucher ::
  "nat \<Rightarrow> 'a AxiosInstance \<Rightarrow> json \<Rightarrow> AiraloService \<Rightarrow> unit outcome" where
  "redeemAirmoneyVoucher k ax body this =
     void (endpoint k ax (post_json ''/v2/voucher/airmoney'' body) this)"

section \<open>The public interface as a datatype of calls\<close>

datatype operation =
    Authenticate
  | GetOrders AiraloOrderListParams
  | GetOrder number "string option"
  | CreateOrder AiraloOrderCreateParams
  | CreateAsyncOrder AiraloOrderAsyncParams
  | CreateTopupOrder AiraloTopupOrderParams
  | GetOrderStatuses "PageParams option"
  | GetOrderStatus string
  | GetSIMs AiraloSIMListParams
  | GetSIM string
  | GetSIMInstructions string
  | GetSIMUsage string
  | GetSIMBrand string
  | UpdateSIMBrand string "string option"
  | GetSIMPackages string
  | GetSIMTopups string
  | GetPackages AiraloPackageListParams
  | GetCompatibleDevices
  | OptInNotifications json
  | OptOutNotifications
  | SimulateWebhook json
  | GetBalance
  | RedeemESIMVoucher json
  | RedeemAirmoneyVoucher json

text \<open>What a call returns: a payload, or nothing for the methods of type \<^verbatim>\<open>Promise<void>\<close>.\<close>

definition returning :: "'a outcome \<Rightarrow> 'a option outcome" where
  "returning m = await m (\<lambda>x this. Some (Inr (Some x), this))"

definition nothing :: "unit outcome \<Rightarrow> 'a option outcome" where
  "nothing m = await m (\<lambda>_ this. Some (Inr None, this))"

fun perform ::
  "nat \<Rightarrow> 'a AxiosInstance \<Rightarrow> operation \<Rightarrow> AiraloService \<Rightarrow> 'a option outcome" where
  "perform k ax Authenticate this = nothing (authenticate k ax this)"
| "perform k ax (GetOrders ps) this = returning (getOrders k ax ps this)"
| "perform k ax (GetOrder orderId incl) this = returning (getOrder k ax orderId incl this)"
| "perform k ax (CreateOrder orderData) this = returning (createOrder k ax orderData this)"
| "perform k ax (CreateAsyncOrder orderData) this = returning (createAsyncOrder k ax orderData this)"
| "perform k ax (CreateTopupOrder orderData) this = returning (createTopupOrder k ax orderData this)"
| "perform k ax (GetOrderStatuses ps) this = returning (getOrderStatuses k ax ps this)"
| "perform k ax (GetOrderStatus slug) this = returning (getOrderStatus k ax slug this)"
| "perform k ax (GetSIMs ps) this = returning (getSIMs k ax ps this)"
| "perform k ax (GetSIM iccid) this = returning (getSIM k ax iccid this)"
| "perform k ax (GetSIMInstructions iccid) this = returning (getSIMInstructions k ax iccid this)"
| "perform k ax (GetSIMUsage iccid) this = returning (getSIMUsage k ax iccid this)"
| "perform k ax (GetSIMBrand iccid) this = returning (getSIMBrand k ax iccid this)"
| "perform k ax (UpdateSIMBrand iccid b) this = returning (updateSIMBrand k ax iccid b this)"
| "perform k ax (GetSIMPackages iccid) this = returning (getSIMPackages k ax iccid this)"
| "perform k ax (GetSIMTopups iccid) this = returning (getSIMTopups k ax iccid this)"
| "perform k ax (GetPackages ps) this = returning (getPackages k ax ps this)"
| "perform k ax GetCompatibleDevices this = returning (getCompatibleDevices k ax this)"
| "perform k ax (OptInNotifications body) this = nothing (optInNotifications k ax body this)"
| "perform k ax OptOutNotifications this = nothing (optOutNotifications k ax this)"
| "perform k ax (SimulateWebhook body) this = nothing (simulateWebhook k ax body this)"
| "perform k ax GetBalance this = returning (getBalance k ax this)"
| "perform k ax (RedeemESIMVoucher body) this = returning (redeemESIMVoucher k ax body this)"
| "perform k ax (RedeemAirmoneyVoucher body) this = nothing (redeemAirmoneyVoucher k ax body this)"

text \<open>
  A caller making one call after the other on the same instance, whatever each call
  resolves or rejects with.
\<close>

fun perform_all ::
  "nat \<Rightarrow> 'a AxiosInstance \<Rightarrow> operation list \<Rightarrow> AiraloService \<Rightarrow> AiraloService option" where
  "perform_all k ax [] this = Some this"
| "perform_all k ax (c # cs) this =
     (case perform k ax c this of
        None \<Rightarrow> None
      | Some (_, this') \<Rightarrow> perform_all k ax cs this')"

section \<open>Concrete inputs\<close>

text \<open>
  The configuration and the rate-limit failure of the test-suite
  (\<^verbatim>\<open>mockConfig\<close>, \<^verbatim>\<open>rateLimitError\<close>), a 401 failure as axios reports it, and the login
  response of the scenario in the specification.
\<close>

definition mockConfig :: AiraloConfig where
  "mockConfig =
     \<lparr> baseUrl = ''https://api.test.com'', clientId = ''test-client-id'',
       clientSecret = ''test-client-secret'' \<rparr>"

definition rateLimitError :: AxiosError where
  "rateLimitError = \<lparr> error_message = None, response = Some \<lparr> status = 429, error_data = None \<rparr> \<rparr>"

definition unauthorized :: AxiosError where
  "unauthorized =
     \<lparr> error_message = Some ''Request failed with status code 401'',
       response = Some \<lparr> status = 401, error_data = None \<rparr> \<rparr>"

definition login_ok :: AiraloAuthResponse where
  "login_ok =
     \<lparr> auth_data =
         Some \<lparr> access_token = Some ''T'', token_type = Some ''Bearer'', expires_in = Some 3600 \<rparr> \<rparr>"

text \<open>
  Two other bodies that the login endpoint may answer with status 200: \<^verbatim>\<open>{}\<close>, and
  \<^verbatim>\<open>{ data: {} }\<close>.
\<close>

definition login_without_data :: AiraloAuthResponse where
  "login_without_data = \<lparr> auth_data = None \<rparr>"


text \<open>
  A remote side that answers the first \<open>n\<close> sendings of a request with the failure and
  every later one with the payload, and a network whose login always succeeds.
\<close>

definition flaky :: "AxiosError \<Rightarrow> nat \<Rightarrow> 'a \<Rightarrow> 'a server" where
  "flaky error n payload tr req =
     (if count_list tr (Sent req) < n then Inl error else Inr \<lparr> data = payload \<rparr>)"

definition example_net :: "AxiosError \<Rightarrow> nat \<Rightarrow> string network" where
  "example_net error n =
     \<lparr> token_server = (\<lambda>tr req. Inr \<lparr> data = login_ok \<rparr>),
       api_server = flaky error n ''payload'' \<rparr>"

text \<open>
  A network whose login is answered with the given body and whose other requests are
  answered with a payload, and one whose login fails.
\<close>

definition login_net :: "AiraloAuthResponse \<Rightarrow> string network" where
  "login_net body =
     \<lparr> token_server = (\<lambda>tr req. Inr \<lparr> data = body \<rparr>),
       api_server = (\<lambda>tr req. Inr \<lparr> data = ''payload'' \<rparr>) \<rparr>"

definition login_fails :: "AxiosError \<Rightarrow> string network" where
  "login_fails error =
     \<lparr> token_server = (\<lambda>tr req. Inl error),
       api_server = (\<lambda>tr req. Inr \<lparr> data = ''payload'' \<rparr>) \<rparr>"

text \<open>An instance that holds the token \<^verbatim>\<open>T0\<close>.\<close>

definition logged_in :: AiraloService where
  "logged_in = \<lparr> config = mockConfig, accessToken = Some ''T0'', trace = [] \<rparr>"

section \<open>Properties of the error mapping\<close>

lemma find_code_number:
  "find (\<lambda>c. code_number c = n) AiraloErrorCode_values = Some c \<longleftrightarrow> code_number c = n"
  by (cases c) (auto simp: AiraloErrorCode_values_def)


lemma includes_code_Member:
  "includes_code v = Some (Member c) \<longleftrightarrow> v = JNumber (code_number c)"
  by (cases v) (auto simp: find_code_number)



lemma includes_code_known:
  "n \<in> {11, 13, 14, 23, 33, 34, 43, 53} \<Longrightarrow>
     \<exists>c. includes_code (JNumber n) = Some (Member c) \<and> code_number c = n"
  by (auto simp: AiraloErrorCode_values_def)

lemma includes_code_truthy: "includes_code v = Some x \<Longrightarrow> truthy_json (Some v)"
  by (cases v) (auto simp: AiraloErrorCode_values_def split: if_splits)

lemma construct_AiraloError_simps:
  "code (construct_AiraloError x info st) = x"
  "additionalInfo (construct_AiraloError x info st) = info"
  "statusCode (construct_AiraloError x info st) = (case st of None \<Rightarrow> 422 | Some n \<Rightarrow> n)"
  "name (construct_AiraloError x info st) = ''AiraloError''"
  by (simp_all add: construct_AiraloError_def Let_def)

lemma new_AiraloError_simps:
  "code (new_AiraloError c info st) = Member c"
  "additionalInfo (new_AiraloError c info st) = info"
  "statusCode (new_AiraloError c info st) = (case st of None \<Rightarrow> 422 | Some n \<Rightarrow> n)"
  "name (new_AiraloError c info st) = ''AiraloError''"
  "message (new_AiraloError c info st) =
     (case info of None \<Rightarrow> AiraloErrorMessages c
      | Some s \<Rightarrow> if s = [] then AiraloErrorMessages c else AiraloErrorMessages c @ '': '' @ s)"
  by (simp_all add: new_AiraloError_def construct_AiraloError_def Let_def split: option.splits)

lemma handleAxiosError_known:
  assumes "response error = Some r" "status r = 422" "error_data r = Some d"
    "data_code d = Some v" "includes_code v = Some x"
  shows "handleAxiosError error =
           construct_AiraloError x (or_string (data_additional_info d) (data_message d)) None"
  using assms includes_code_truthy [OF assms(5)]
  by (simp add: handleAxiosError_def response_status_def response_data_def
      response_data_code_def Let_def)

lemma handleAxiosError_unexpected:
  assumes "response_status error = Some 422 \<longrightarrow>
             (\<forall>v. response_data_code error = Some v \<longrightarrow> includes_code v = None)"
  shows "handleAxiosError error =
           new_AiraloError UNEXPECTED_ERROR (error_message error)
             (Some (or_number (response_status error) 500))"
  using assms
  by (auto simp: handleAxiosError_def Let_def split: option.splits)







text \<open>
  C10 (as amended). The message of a constructed \<^verbatim>\<open>AiraloError\<close> is the canonical
  message of its code when the additional info is absent or the empty string, and the
  canonical message, \<^verbatim>\<open>': '\<close> and the additional info when that is a non-empty string. The
  status is 422 when none is supplied, so the errors of the 422 path with a code of the
  enum carry 422. \<^verbatim>\<open>toResponse\<close> returns the message, the code, the status and the
  additional info, and no \<^verbatim>\<open>errors\<close> member.
\<close>

theorem AiraloError_construction:
  "message (new_AiraloError c None st) = AiraloErrorMessages c
   \<and> message (new_AiraloError c (Some []) st) = AiraloErrorMessages c
   \<and> (s \<noteq> [] \<longrightarrow>
        message (new_AiraloError c (Some s) st) = AiraloErrorMessages c @ '': '' @ s)
   \<and> statusCode (new_AiraloError c info None) = 422
   \<and> statusCode (new_AiraloError c info (Some n)) = n
   \<and> (response_status error = Some 422 \<and> response_data_code error = Some (JNumber m)
        \<and> m \<in> {11, 13, 14, 23, 33, 34, 43, 53} \<longrightarrow>
        statusCode (handleAxiosError error) = 422)
   \<and> toResponse (new_AiraloError c info st) =
        \<lparr> r_message = message (new_AiraloError c info st),
          r_errors = None,
          r_code = Some (Member c),
          r_status_code = (case st of None \<Rightarrow> 422 | Some n \<Rightarrow> n),
          r_additional_info = info \<rparr>"
proof -
  have known: "statusCode (handleAxiosError error) = 422"
    if "response_status error = Some 422" "response_data_code error = Some (JNumber m)"
      "m \<in> {11, 13, 14, 23, 33, 34, 43, 53}"
  proof -
    from that(3) obtain c' where c': "includes_code (JNumber m) = Some (Member c')"
      using includes_code_known by blast
    from that(1) obtain r where r: "response error = Some r" "status r = 422"
      by (auto simp: response_status_def)
    from that(2) r obtain d where d: "error_data r = Some d" "data_code d = Some (JNumber m)"
      by (auto simp: response_data_code_def response_data_def Option.bind_eq_Some_conv)
    show ?thesis
      by (simp add: handleAxiosError_known [OF r d c'] construct_AiraloError_simps)
  qed
  show ?thesis
    using known by (simp add: new_AiraloError_simps toResponse_def)
qed

theorem AiraloError_construction_witness:
  "message (new_AiraloError INSUFFICIENT_CREDIT (Some ''top up first'') None) =
     ''Insufficient Airalo Credit: top up first''
   \<and> statusCode (handleAxiosError
        \<lparr> error_message = Some ''Request failed with status code 422'',
          response = Some \<lparr> status = 422,
            error_data = Some \<lparr> data_code = Some (JNumber 33), data_additional_info = None,
                                 data_message = Some ''sold out'' \<rparr> \<rparr> \<rparr>) = 422"
  using AiraloError_construction [of INSUFFICIENT_CREDIT None "''top up first''" _ _
      "\<lparr> error_message = Some ''Request failed with status code 422'',
          response = Some \<lparr> status = 422,
            error_data = Some \<lparr> data_code = Some (JNumber 33), data_additional_info = None,
                                 data_message = Some ''sold out'' \<rparr> \<rparr> \<rparr>" 33]
  by (simp add: response_status_def response_data_code_def response_data_def)

text \<open>
  C10 as stated fails for the empty string as additional info: the message is the
  canonical message alone, without \<^verbatim>\<open>': '\<close>.
\<close>

theorem AiraloError_empty_info_counterexample:
  "message (new_AiraloError BAD_REQUEST (Some '''') None)
     \<noteq> AiraloErrorMessages BAD_REQUEST @ '': '' @ ''''"
  by (simp add: new_AiraloError_def construct_AiraloError_def)

section \<open>The pipeline on the instance that the constructor builds\<close>

text \<open>
  Every rejection of the transport passes the interceptor before \<^verbatim>\<open>handleRequest\<close>
  catches it, so what \<^verbatim>\<open>handleRequest\<close> catches is an \<^verbatim>\<open>AiraloError\<close>: its
  \<^verbatim>\<open>error.response?.status\<close> is \<^verbatim>\<open>undefined\<close>, neither retry branch is taken, and a
  request is sent exactly once.
\<close>

lemma intercepted_dispatch:
  "response_interceptors (dispatch server req) tr =
     (case server tr req of
        Inl e \<Rightarrow> (Inl (Mapped (handleAxiosError e)), tr @ [Sent req])
      | Inr r \<Rightarrow> (Inr r, tr @ [Sent req]))"
  by (simp add: response_interceptors_def dispatch_def split: sum.splits)

lemma handleRequest_intercepted:
  "handleRequest auth (response_interceptors (dispatch server req)) n this =
     (case server (trace this) req of
        Inl e \<Rightarrow> Some (Inl (Mapped (handleAxiosError e)), this\<lparr>trace := trace this @ [Sent req]\<rparr>)
      | Inr r \<Rightarrow> Some (Inr (data r), this\<lparr>trace := trace this @ [Sent req]\<rparr>))"
  by (subst handleRequest.simps) (simp add: intercepted_dispatch split: sum.splits)

lemma request_created:
  "request_api (axios_create cfg net) req = response_interceptors (dispatch (api_server net) req)"
  "request_token (axios_create cfg net) req = response_interceptors (dispatch (token_server net) req)"
  by (simp_all add: axios_create_def)

lemma authenticate_created:
  "authenticate (Suc k) (axios_create cfg net) this =
     (let login = token_request (config this); tr = trace this @ [Sent login] in
      case token_server net (trace this) login of
        Inl e \<Rightarrow> Some (Inl (Mapped (handleAxiosError e)), this\<lparr>trace := tr\<rparr>)
      | Inr r \<Rightarrow>
          (case auth_data (data r) of
             None \<Rightarrow> Some (Inl TypeError, this\<lparr>trace := tr\<rparr>)
           | Some d \<Rightarrow> Some (Inr (), this\<lparr>trace := tr, accessToken := access_token d\<rparr>)))"
  by (simp add: request_created handleRequest_intercepted Let_def split: sum.splits option.splits)

lemma getHeaders_held:
  "truthy_string (accessToken this) \<Longrightarrow>
   getHeaders k ax this = Some (Inr [(''Authorization'', bearer (accessToken this))], this)"
  by (simp add: getHeaders_def)

lemma getHeaders_created:
  "\<not> truthy_string (accessToken this) \<Longrightarrow>
   getHeaders (Suc k) (axios_create cfg net) this =
     (let login = token_request (config this); tr = trace this @ [Sent login] in
      case token_server net (trace this) login of
        Inl e \<Rightarrow> Some (Inl (Mapped (handleAxiosError e)), this\<lparr>trace := tr\<rparr>)
      | Inr r \<Rightarrow>
          (case auth_data (data r) of
             None \<Rightarrow> Some (Inl TypeError, this\<lparr>trace := tr\<rparr>)
           | Some d \<Rightarrow> Some (Inr [(''Authorization'', bearer (access_token d))],
                             this\<lparr>trace := tr, accessToken := access_token d\<rparr>)))"
  by (simp add: getHeaders_def authenticate_created await_def Let_def
      del: authenticate.simps split: sum.splits option.splits)

lemma endpoint_held:
  "truthy_string (accessToken this) \<Longrightarrow>
   endpoint k (axios_create cfg net) build this =
     (let req = build [(''Authorization'', bearer (accessToken this))] in
      case api_server net (trace this) req of
        Inl e \<Rightarrow> Some (Inl (Mapped (handleAxiosError e)), this\<lparr>trace := trace this @ [Sent req]\<rparr>)
      | Inr r \<Rightarrow> Some (Inr (data r), this\<lparr>trace := trace this @ [Sent req]\<rparr>))"
  by (simp add: endpoint_def getHeaders_held await_def request_created handleRequest_intercepted
      Let_def)

lemma endpoint_lazy:
  "\<not> truthy_string (accessToken this) \<Longrightarrow>
   endpoint (Suc k) (axios_create cfg net) build this =
     (let login = token_request (config this); tr = trace this @ [Sent login] in
      case token_server net (trace this) login of
        Inl e \<Rightarrow> Some (Inl (Mapped (handleAxiosError e)), this\<lparr>trace := tr\<rparr>)
      | Inr a \<Rightarrow>
          (case auth_data (data a) of
             None \<Rightarrow> Some (Inl TypeError, this\<lparr>trace := tr\<rparr>)
           | Some d \<Rightarrow>
               (let req = build [(''Authorization'', bearer (access_token d))] in
                case api_server net tr req of
                  Inl e \<Rightarrow> Some (Inl (Mapped (handleAxiosError e)),
                                  this\<lparr>trace := tr @ [Sent req], accessToken := access_token d\<rparr>)
                | Inr r \<Rightarrow> Some (Inr (data r),
                                  this\<lparr>trace := tr @ [Sent req], accessToken := access_token d\<rparr>))))"
  by (simp add: endpoint_def getHeaders_created await_def request_created
      handleRequest_intercepted Let_def split: sum.splits option.splits)



lemma wrappers_reject [simp]:
  "returning m = Some (Inl t, s) \<longleftrightarrow> m = Some (Inl t, s)"
  "nothing m' = Some (Inl t, s) \<longleftrightarrow> m' = Some (Inl t, s)"
  "void m = Some (Inl t, s) \<longleftrightarrow> m = Some (Inl t, s)"
  by (auto simp: returning_def nothing_def void_def await_def split: option.splits sum.splits)

lemma wrappers_return [simp]:
  "returning m = None \<longleftrightarrow> m = None"
  "nothing m' = None \<longleftrightarrow> m' = None"
  "void m = None \<longleftrightarrow> m = None"
  by (auto simp: returning_def nothing_def void_def await_def split: option.splits sum.splits)

lemmas endpoint_defs =
  getOrders_def getOrder_def createOrder_def createAsyncOrder_def createTopupOrder_def
  getOrderStatuses_def getOrderStatus_def getSIMs_def getSIM_def getSIMInstructions_def
  getSIMUsage_def getSIMBrand_def updateSIMBrand_def getSIMPackages_def getSIMTopups_def
  getPackages_def getCompatibleDevices_def optInNotifications_def optOutNotifications_def
  simulateWebhook_def getBalance_def redeemESIMVoucher_def redeemAirmoneyVoucher_def




lemma handleAxiosError_status:
  assumes "response_status error = Some n" "n \<noteq> 422" "n \<noteq> 0"
  shows "handleAxiosError error = new_AiraloError UNEXPECTED_ERROR (error_message error) (Some n)"
  using assms by (simp add: handleAxiosError_unexpected or_number_def)


section \<open>The retry logic on failures that reach it as they are\<close>

text \<open>
  With the instance of the test-suite the failures of the transport reach
  \<^verbatim>\<open>handleRequest\<close> with their \<^verbatim>\<open>response\<close>. Then a 429 is retried after 1000, 2000 and
  3000 milliseconds and the fourth answer decides; a 401 on the first attempt clears the
  token, logs in and repeats the thunk once; and the login of \<^verbatim>\<open>authenticate\<close> is retried
  on a 429 like any other request.
\<close>

lemma handleRequest_resolves:
  "f (trace this) = (Inr resp, tr) \<Longrightarrow>
   handleRequest auth f n this = Some (Inr (data resp), this\<lparr>trace := tr\<rparr>)"
  by (subst handleRequest.simps) simp

lemma handleRequest_backoff:
  "f (trace this) = (Inl e, tr) \<Longrightarrow> thrown_status e = Some 429 \<Longrightarrow> n < maxRetries \<Longrightarrow>
   handleRequest auth f n this =
     handleRequest auth f (n + 1) (this\<lparr>trace := tr @ [Sleep (retryDelay * (n + 1))]\<rparr>)"
  by (subst handleRequest.simps) simp

lemma handleRequest_rethrows:
  "f (trace this) = (Inl e, tr) \<Longrightarrow>
   \<not> (thrown_status e = Some 401 \<and> n < 1) \<Longrightarrow>
   \<not> (thrown_status e = Some 429 \<and> n < maxRetries) \<Longrightarrow>
   handleRequest auth f n this = Some (Inl e, this\<lparr>trace := tr\<rparr>)"
  by (subst handleRequest.simps) auto


lemma dispatch_simps:
  "server tr req = Inl e \<Longrightarrow>
     no_interceptors (dispatch server req) tr = (Inl (Raw e), tr @ [Sent req])"
  "server tr req = Inr resp \<Longrightarrow>
     no_interceptors (dispatch server req) tr = (Inr resp, tr @ [Sent req])"
  by (simp_all add: dispatch_def no_interceptors_def)

lemma request_mock:
  "request_api (axios_mock cfg net) req = no_interceptors (dispatch (api_server net) req)"
  "request_token (axios_mock cfg net) req = no_interceptors (dispatch (token_server net) req)"
  by (simp_all add: axios_mock_def)

lemma raw_rate_limit_retried:
  assumes "server (trace this) req = Inl e1" "response_status e1 = Some 429"
    and "server (trace this @ [Sent req, Sleep 1000]) req = Inl e2" "response_status e2 = Some 429"
    and "server (trace this @ [Sent req, Sleep 1000, Sent req, Sleep 2000]) req = Inl e3"
      "response_status e3 = Some 429"
    and "server (trace this @ [Sent req, Sleep 1000, Sent req, Sleep 2000, Sent req, Sleep 3000]) req
           = answer"
  shows "handleRequest auth (no_interceptors (dispatch server req)) 0 this =
           Some (case answer of Inl e4 \<Rightarrow> Inl (Raw e4) | Inr resp \<Rightarrow> Inr (data resp),
                 this\<lparr>trace := trace this @ [Sent req, Sleep 1000, Sent req, Sleep 2000,
                                               Sent req, Sleep 3000, Sent req]\<rparr>)"
proof -
  let ?f = "no_interceptors (dispatch server req)"
  let ?s1 = "this\<lparr>trace := trace this @ [Sent req, Sleep 1000]\<rparr>"
  let ?s2 = "this\<lparr>trace := trace this @ [Sent req, Sleep 1000, Sent req, Sleep 2000]\<rparr>"
  let ?s3 = "this\<lparr>trace := trace this @ [Sent req, Sleep 1000, Sent req, Sleep 2000,
                                            Sent req, Sleep 3000]\<rparr>"
  have 1: "handleRequest auth ?f 0 this = handleRequest auth ?f (Suc 0) ?s1"
    using handleRequest_backoff [of ?f this "Raw e1" _ 0 auth] assms(1,2)
    by (simp add: dispatch_simps maxRetries_def retryDelay_def)
  have 2: "handleRequest auth ?f (Suc 0) ?s1 = handleRequest auth ?f (Suc (Suc 0)) ?s2"
    using handleRequest_backoff [of ?f ?s1 "Raw e2" _ "Suc 0" auth] assms(3,4)
    by (simp add: dispatch_simps maxRetries_def retryDelay_def)
  have 3: "handleRequest auth ?f (Suc (Suc 0)) ?s2 = handleRequest auth ?f (Suc (Suc (Suc 0))) ?s3"
    using handleRequest_backoff [of ?f ?s2 "Raw e3" _ "Suc (Suc 0)" auth] assms(5,6)
    by (simp add: dispatch_simps maxRetries_def retryDelay_def)
  have 4: "handleRequest auth ?f (Suc (Suc (Suc 0))) ?s3 =
           Some (case answer of Inl e4 \<Rightarrow> Inl (Raw e4) | Inr resp \<Rightarrow> Inr (data resp),
                 this\<lparr>trace := trace this @ [Sent req, Sleep 1000, Sent req, Sleep 2000,
                                               Sent req, Sleep 3000, Sent req]\<rparr>)"
  proof (cases answer)
    case (Inl e4)
    then show ?thesis
      using handleRequest_rethrows [of ?f ?s3 "Raw e4" _ "Suc (Suc (Suc 0))" auth] assms(7)
      by (simp add: dispatch_simps maxRetries_def)
  next
    case (Inr resp)
    then show ?thesis
      using handleRequest_resolves [of ?f ?s3 resp _ auth "Suc (Suc (Suc 0))"] assms(7)
      by (simp add: dispatch_simps)
  qed
  show ?thesis by (simp only: 1 2 3 4)
qed



lemma raw_login_rate_limit_retried:
  assumes "token_server net (trace this) (token_request (config this)) = Inl e1"
    and "response_status e1 = Some 429"
    and "token_server net (trace this @ [Sent (token_request (config this)), Sleep 1000])
           (token_request (config this)) = Inr a"
    and "auth_data (data a) = Some d"
  shows "authenticate (Suc k) (axios_mock cfg net) this =
           Some (Inr (), this\<lparr>trace := trace this @ [Sent (token_request (config this)), Sleep 1000,
                                                        Sent (token_request (config this))],
                            accessToken := access_token d\<rparr>)"
proof -
  let ?login = "token_request (config this)"
  let ?f = "no_interceptors (dispatch (token_server net) ?login)"
  let ?s1 = "this\<lparr>trace := trace this @ [Sent ?login, Sleep 1000]\<rparr>"
  have 1: "handleRequest (authenticate k (axios_mock cfg net)) ?f 0 this =
           handleRequest (authenticate k (axios_mock cfg net)) ?f (Suc 0) ?s1"
    using handleRequest_backoff [of ?f this "Raw e1" _ 0] assms(1,2)
    by (simp add: dispatch_simps maxRetries_def retryDelay_def)
  have 2: "handleRequest (authenticate k (axios_mock cfg net)) ?f (Suc 0) ?s1 =
           Some (Inr (data a), this\<lparr>trace := trace this @ [Sent ?login, Sleep 1000, Sent ?login]\<rparr>)"
    using handleRequest_resolves [of ?f ?s1 a _ _ "Suc 0"] assms(3)
    by (simp add: dispatch_simps)
  show ?thesis
    using assms(4) by (simp add: request_mock 1 2)
qed

section \<open>The test of rate limiting, on both instances\<close>

text \<open>
  The test \<^verbatim>\<open>should handle rate limiting\<close> of the repository: a new service, a login that
  succeeds, and \<^verbatim>\<open>getBalance\<close> answered 429 twice and then with the payload. On the
  instance of the test-suite the call resolves after three attempts, as the test expects.
  On the instance that the constructor builds, the same answers make the call reject
  after the first attempt. A 401 on the instance of the test-suite is followed by a login
  and one more attempt, which repeats the request as it was built, with the old header.
\<close>

lemma test_rate_limiting_on_mock:
  "getBalance 1 (axios_mock mockConfig (example_net rateLimitError 2)) (new_AiraloService mockConfig) =
     Some (Inr ''payload'',
           \<lparr> config = mockConfig, accessToken = Some ''T'',
             trace = [Sent (token_request mockConfig),
                      Sent (get_path ''/v2/balance'' [(''Authorization'', ''Bearer T'')]),
                      Sleep 1000,
                      Sent (get_path ''/v2/balance'' [(''Authorization'', ''Bearer T'')]),
                      Sleep 2000,
                      Sent (get_path ''/v2/balance'' [(''Authorization'', ''Bearer T'')])] \<rparr>)"
proof -
  note eval = dispatch_def no_interceptors_def example_net_def flaky_def rateLimitError_def
    response_status_def maxRetries_def retryDelay_def token_request_def get_path_def login_ok_def
  show ?thesis
    apply (simp add: getBalance_def endpoint_def getHeaders_def new_AiraloService_def request_mock
        await_def bearer_def)
    apply (subst handleRequest.simps, simp add: eval)
    apply (subst handleRequest.simps, simp add: eval)
    apply (subst handleRequest.simps, simp add: eval)
    apply (subst handleRequest.simps, simp add: eval)
    done
qed

lemma test_rate_limiting_on_created:
  "getBalance 1 (axios_create mockConfig (example_net rateLimitError 2)) (new_AiraloService mockConfig) =
     Some (Inl (Mapped (new_AiraloError UNEXPECTED_ERROR None (Some 429))),
           \<lparr> config = mockConfig, accessToken = Some ''T'',
             trace = [Sent (token_request mockConfig),
                      Sent (get_path ''/v2/balance'' [(''Authorization'', ''Bearer T'')])] \<rparr>)"
  by (simp add: getBalance_def endpoint_lazy new_AiraloService_def example_net_def login_ok_def
      flaky_def Let_def handleAxiosError_status rateLimitError_def response_status_def bearer_def)

lemma unauthorized_on_mock:
  "getBalance 1 (axios_mock mockConfig (example_net unauthorized 1)) logged_in =
     Some (Inr ''payload'',
           \<lparr> config = mockConfig, accessToken = Some ''T'',
             trace = [Sent (get_path ''/v2/balance'' [(''Authorization'', ''Bearer T0'')]),
                      Sent (token_request mockConfig),
                      Sent (get_path ''/v2/balance'' [(''Authorization'', ''Bearer T0'')])] \<rparr>)"
proof -
  note eval = dispatch_def no_interceptors_def example_net_def flaky_def unauthorized_def
    response_status_def maxRetries_def retryDelay_def token_request_def get_path_def login_ok_def
    request_mock
  show ?thesis
    apply (simp add: getBalance_def endpoint_def getHeaders_def logged_in_def request_mock
        await_def bearer_def)
    apply (subst handleRequest.simps, simp add: eval)
    apply (subst handleRequest.simps, simp add: eval)
    apply (subst handleRequest.simps, simp add: eval)
    done
qed

section \<open>Claims on the retries\<close>

text \<open>
  C1 (the code at the claim's input). On the instance that the constructor builds, a
  request whose first attempt is answered with status 401 is rejected after that one
  attempt with the mapped error (code 53, status 401): the request is sent once, no login
  request follows, the thunk is not run again and the access token is left as it was.
  The claim says that the token is cleared, \<^verbatim>\<open>authenticate\<close> is called and the thunk is
  retried once.
\<close>

theorem unauthorized_request_not_retried:
  assumes "api_server net (trace this) req = Inl error"
    and "response_status error = Some 401"
  shows "handleRequest (authenticate k (axios_create cfg net))
           (request_api (axios_create cfg net) req) 0 this =
         Some (Inl (Mapped (new_AiraloError UNEXPECTED_ERROR (error_message error) (Some 401))),
               this\<lparr>trace := trace this @ [Sent req]\<rparr>)"
  using assms by (simp add: request_created handleRequest_intercepted handleAxiosError_status)

theorem unauthorized_request_not_retried_witness:
  "getBalance 1 (axios_create mockConfig (example_net unauthorized 1)) logged_in =
     Some (Inl (Mapped (new_AiraloError UNEXPECTED_ERROR
                          (Some ''Request failed with status code 401'') (Some 401))),
           \<lparr> config = mockConfig, accessToken = Some ''T0'',
             trace = [Sent (get_path ''/v2/balance'' [(''Authorization'', ''Bearer T0'')])] \<rparr>)"
  using unauthorized_request_not_retried [of "example_net unauthorized 1" logged_in
      "get_path ''/v2/balance'' [(''Authorization'', ''Bearer T0'')]" unauthorized
      1 mockConfig]
  by (simp add: getBalance_def endpoint_def getHeaders_def await_def bearer_def logged_in_def
      example_net_def flaky_def unauthorized_def response_status_def)

text \<open>
  C2 (the code at the claim's input). On the instance that the constructor builds, a
  request whose first attempt is answered with status 429 is rejected after that one
  attempt with the mapped error (code 53, status 429): no delay is waited and the thunk
  is not run again, also when the next attempt would succeed. The claim says that up to
  three retries follow, after 1000, 2000 and 3000 milliseconds.
\<close>

theorem rate_limited_request_not_retried:
  assumes "api_server net (trace this) req = Inl error"
    and "response_status error = Some 429"
  shows "handleRequest (authenticate k (axios_create cfg net))
           (request_api (axios_create cfg net) req) 0 this =
         Some (Inl (Mapped (new_AiraloError UNEXPECTED_ERROR (error_message error) (Some 429))),
               this\<lparr>trace := trace this @ [Sent req]\<rparr>)"
  using assms by (simp add: request_created handleRequest_intercepted handleAxiosError_status)

theorem rate_limited_request_not_retried_witness:
  "getBalance 1 (axios_create mockConfig (example_net rateLimitError 1)) logged_in =
     Some (Inl (Mapped (new_AiraloError UNEXPECTED_ERROR
                          None (Some 429))),
           \<lparr> config = mockConfig, accessToken = Some ''T0'',
             trace = [Sent (get_path ''/v2/balance'' [(''Authorization'', ''Bearer T0'')])] \<rparr>)"
  using rate_limited_request_not_retried [of "example_net rateLimitError 1" logged_in
      "get_path ''/v2/balance'' [(''Authorization'', ''Bearer T0'')]" rateLimitError
      1 mockConfig]
  by (simp add: getBalance_def endpoint_def getHeaders_def await_def bearer_def logged_in_def
      example_net_def flaky_def rateLimitError_def response_status_def)

section \<open>Claims on what a call rejects with\<close>


lemma perform_login_rejected:
  assumes "call = Authenticate \<or> \<not> truthy_string (accessToken this)"
    and "token_server net (trace this) (token_request (config this)) = Inl error"
  shows "perform (Suc k) (axios_create cfg net) call this =
           Some (Inl (Mapped (handleAxiosError error)),
                 this\<lparr>trace := trace this @ [Sent (token_request (config this))]\<rparr>)"
proof (cases call)
  case Authenticate
  with assms(2) show ?thesis
    by (simp add: authenticate_created nothing_def await_def Let_def del: authenticate.simps)
qed (use assms in \<open>simp_all add: endpoint_defs endpoint_lazy returning_def nothing_def void_def
      await_def Let_def\<close>)

lemma perform_login_without_data:
  assumes "call = Authenticate \<or> \<not> truthy_string (accessToken this)"
    and "token_server net (trace this) (token_request (config this)) = Inr r"
    and "auth_data (data r) = None"
  shows "perform (Suc k) (axios_create cfg net) call this =
           Some (Inl TypeError, this\<lparr>trace := trace this @ [Sent (token_request (config this))]\<rparr>)"
proof (cases call)
  case Authenticate
  with assms(2,3) show ?thesis
    by (simp add: authenticate_created nothing_def await_def Let_def del: authenticate.simps)
qed (use assms in \<open>simp_all add: endpoint_defs endpoint_lazy returning_def nothing_def void_def
      await_def Let_def\<close>)









section \<open>Claims on the authorization header and on the orders request\<close>

lemma endpoint_held_sent:
  assumes "truthy_string (accessToken this)"
    and "\<And>hs. authorization (build hs) = filter (\<lambda>h. fst h = ''Authorization'') hs"
  shows "\<exists>r req. endpoint k (axios_create cfg net) build this =
                   Some (r, this\<lparr>trace := trace this @ [Sent req]\<rparr>)
               \<and> authorization req = [(''Authorization'', bearer (accessToken this))]"
proof -
  let ?req = "build [(''Authorization'', bearer (accessToken this))]"
  have "authorization ?req = [(''Authorization'', bearer (accessToken this))]"
    using assms(2) [of "[(''Authorization'', bearer (accessToken this))]"] by simp
  then show ?thesis
    by (cases "api_server net (trace this) ?req")
      (auto simp: endpoint_held [OF assms(1)] Let_def)
qed

lemma endpoint_lazy_sent:
  assumes "\<not> truthy_string (accessToken this)"
    and "token_server net (trace this) (token_request (config this)) = Inr a"
    and "auth_data (data a) = Some d"
    and "\<And>hs. authorization (build hs) = filter (\<lambda>h. fst h = ''Authorization'') hs"
  shows "\<exists>r req. endpoint (Suc k) (axios_create cfg net) build this =
                   Some (r, this\<lparr>trace := trace this @ [Sent (token_request (config this)), Sent req],
                              accessToken := access_token d\<rparr>)
               \<and> authorization req = [(''Authorization'', bearer (access_token d))]"
proof -
  let ?req = "build [(''Authorization'', bearer (access_token d))]"
  have "authorization ?req = [(''Authorization'', bearer (access_token d))]"
    using assms(4) [of "[(''Authorization'', bearer (access_token d))]"] by simp
  then show ?thesis
    using assms(2,3)
    by (cases "api_server net (trace this @ [Sent (token_request (config this))]) ?req")
      (auto simp: endpoint_lazy [OF assms(1)] Let_def)
qed

lemma wrappers_Some:
  "m = Some (r, s) \<Longrightarrow> \<exists>r'. returning m = Some (r', s)"
  "m' = Some (r'', s) \<Longrightarrow> \<exists>r'. nothing m' = Some (r', s)"
  "m = Some (r, s) \<Longrightarrow> \<exists>r'. void m = Some (r', s)"
  by (auto simp: returning_def nothing_def void_def await_def split: sum.splits)

lemma builds_keep_authorization:
  "authorization (get_path path hs) = filter (\<lambda>h. fst h = ''Authorization'') hs"
  "authorization (post_json path body hs) = filter (\<lambda>h. fst h = ''Authorization'') hs"
  "authorization (orders_request hs ps) = filter (\<lambda>h. fst h = ''Authorization'') hs"
  "authorization \<lparr> verb = v, url = u, headers = hs, params = qs, req_data = b \<rparr> =
     filter (\<lambda>h. fst h = ''Authorization'') hs"
  "authorization \<lparr> verb = v, url = u, headers = multipart hs, params = qs, req_data = b \<rparr> =
     filter (\<lambda>h. fst h = ''Authorization'') hs"
  by (simp_all add: authorization_def get_path_def post_json_def orders_request_def multipart_def)

lemma perform_held:
  assumes "truthy_string (accessToken this)" and "call \<noteq> Authenticate"
  shows "\<exists>r req. perform k (axios_create cfg net) call this =
                   Some (r, this\<lparr>trace := trace this @ [Sent req]\<rparr>)
               \<and> authorization req = [(''Authorization'', bearer (accessToken this))]"
proof -
  have *: "\<exists>r req. returning (endpoint k (axios_create cfg net) build this) =
                   Some (r, this\<lparr>trace := trace this @ [Sent req]\<rparr>)
               \<and> authorization req = [(''Authorization'', bearer (accessToken this))]"
    if "\<And>hs. authorization (build hs) = filter (\<lambda>h. fst h = ''Authorization'') hs" for build
    using endpoint_held_sent [OF assms(1) that, of k cfg net] wrappers_Some(1) by metis
  have **: "\<exists>r req. (nothing (void (endpoint k (axios_create cfg net) build this)) :: 'a option outcome) =
                   Some (r, this\<lparr>trace := trace this @ [Sent req]\<rparr>)
               \<and> authorization req = [(''Authorization'', bearer (accessToken this))]"
    if "\<And>hs. authorization (build hs) = filter (\<lambda>h. fst h = ''Authorization'') hs"
    for build :: "(string \<times> string) list \<Rightarrow> request"
    using endpoint_held_sent [OF assms(1) that, of k cfg net] wrappers_Some(2,3) by metis
  show ?thesis
    using assms(2)
    by (cases call)
      (auto simp: endpoint_defs builds_keep_authorization multipart_def intro!: * **)
qed

lemma perform_lazy:
  assumes "\<not> truthy_string (accessToken this)" and "call \<noteq> Authenticate"
    and "token_server net (trace this) (token_request (config this)) = Inr a"
    and "auth_data (data a) = Some d"
  shows "\<exists>r req. perform (Suc k) (axios_create cfg net) call this =
                   Some (r, this\<lparr>trace := trace this @ [Sent (token_request (config this)), Sent req],
                              accessToken := access_token d\<rparr>)
               \<and> authorization req = [(''Authorization'', bearer (access_token d))]"
proof -
  let ?s = "this\<lparr>trace := trace this @ [Sent (token_request (config this)), Sent req],
                 accessToken := access_token d\<rparr>"
  have *: "\<exists>r req. returning (endpoint (Suc k) (axios_create cfg net) build this) =
                   Some (r, this\<lparr>trace := trace this @ [Sent (token_request (config this)), Sent req],
                              accessToken := access_token d\<rparr>)
               \<and> authorization req = [(''Authorization'', bearer (access_token d))]"
    if "\<And>hs. authorization (build hs) = filter (\<lambda>h. fst h = ''Authorization'') hs" for build
    using endpoint_lazy_sent [OF assms(1,3,4) that, of k cfg] wrappers_Some(1) by metis
  have **: "\<exists>r req. (nothing (void (endpoint (Suc k) (axios_create cfg net) build this)) :: 'a option outcome) =
                   Some (r, this\<lparr>trace := trace this @ [Sent (token_request (config this)), Sent req],
                              accessToken := access_token d\<rparr>)
               \<and> authorization req = [(''Authorization'', bearer (access_token d))]"
    if "\<And>hs. authorization (build hs) = filter (\<lambda>h. fst h = ''Authorization'') hs"
    for build :: "(string \<times> string) list \<Rightarrow> request"
    using endpoint_lazy_sent [OF assms(1,3,4) that, of k cfg] wrappers_Some(2,3) by metis
  show ?thesis
    using assms(2)
    by (cases call)
      (auto simp: endpoint_defs builds_keep_authorization multipart_def intro!: * **)
qed

lemma perform_all_held:
  assumes "truthy_string (accessToken this)" and "Authenticate \<notin> set calls"
  shows "\<exists>sent. perform_all k (axios_create cfg net) calls this =
                  Some (this\<lparr>trace := trace this @ map Sent sent\<rparr>)
              \<and> length sent = length calls
              \<and> (\<forall>req\<in>set sent. authorization req = [(''Authorization'', bearer (accessToken this))])"
  using assms
proof (induction calls arbitrary: this)
  case Nil
  then show ?case by simp
next
  case (Cons c cs)
  from Cons.prems have c: "c \<noteq> Authenticate" and cs: "Authenticate \<notin> set cs" by auto
  from perform_held [OF Cons.prems(1) c, of k cfg net]
  obtain r req where step:
    "perform k (axios_create cfg net) c this = Some (r, this\<lparr>trace := trace this @ [Sent req]\<rparr>)"
    "authorization req = [(''Authorization'', bearer (accessToken this))]"
    by blast
  let ?s = "this\<lparr>trace := trace this @ [Sent req]\<rparr>"
  have "truthy_string (accessToken ?s)" using Cons.prems(1) by simp
  from Cons.IH [OF this cs]
  obtain sent where rest:
    "perform_all k (axios_create cfg net) cs ?s = Some (?s\<lparr>trace := trace ?s @ map Sent sent\<rparr>)"
    "length sent = length cs"
    "\<forall>req\<in>set sent. authorization req = [(''Authorization'', bearer (accessToken ?s))]"
    by blast
  show ?case
    by (rule exI [of _ "req # sent"]) (use step rest in simp)
qed

lemma perform_all_lazy:
  assumes "\<not> truthy_string (accessToken this)" and "Authenticate \<notin> set calls" and "calls \<noteq> []"
    and "token_server net (trace this) (token_request (config this)) = Inr a"
    and "auth_data (data a) = Some d" and "access_token d = Some T" and "T \<noteq> []"
  shows "\<exists>sent. perform_all (Suc k) (axios_create cfg net) calls this =
                  Some (this\<lparr>trace := trace this @ Sent (token_request (config this)) # map Sent sent,
                            accessToken := Some T\<rparr>)
              \<and> length sent = length calls
              \<and> (\<forall>req\<in>set sent. authorization req = [(''Authorization'', ''Bearer '' @ T)])"
proof -
  from assms(3) obtain c cs where calls: "calls = c # cs" by (cases calls) auto
  with assms(2) have c: "c \<noteq> Authenticate" and cs: "Authenticate \<notin> set cs" by auto
  from perform_lazy [OF assms(1) c assms(4,5), of k cfg]
  obtain r req where step:
    "perform (Suc k) (axios_create cfg net) c this =
       Some (r, this\<lparr>trace := trace this @ [Sent (token_request (config this)), Sent req],
                    accessToken := access_token d\<rparr>)"
    "authorization req = [(''Authorization'', bearer (access_token d))]"
    by blast
  let ?s = "this\<lparr>trace := trace this @ [Sent (token_request (config this)), Sent req],
                 accessToken := access_token d\<rparr>"
  have "truthy_string (accessToken ?s)" using assms(6,7) by simp
  from perform_all_held [OF this cs, of "Suc k" cfg net]
  obtain sent where rest:
    "perform_all (Suc k) (axios_create cfg net) cs ?s = Some (?s\<lparr>trace := trace ?s @ map Sent sent\<rparr>)"
    "length sent = length cs"
    "\<forall>req\<in>set sent. authorization req = [(''Authorization'', bearer (accessToken ?s))]"
    by blast
  show ?thesis
    by (rule exI [of _ "req # sent"]) (use step rest calls assms(6) in \<open>simp add: bearer_def\<close>)
qed

text \<open>
  C7. After a login answered with a non-empty access token \<open>T\<close>, as in the response
  \<^verbatim>\<open>{data: {access_token: "T", token_type: "Bearer", expires_in: 3600}}\<close>,
  \<^verbatim>\<open>authenticate\<close> resolves and the instance holds \<open>T\<close>; every later sequence of
  endpoint calls sends one request per call, each with \<^verbatim>\<open>Authorization: Bearer T\<close> as its
  one authorization header. With a token held, \<^verbatim>\<open>getHeaders\<close> returns the header
  without any request; with none held it runs \<^verbatim>\<open>authenticate\<close> first, and the headers it
  then returns carry the token of that login. Authentication is lazy: an endpoint call
  on an instance that holds a token sends its request and no login; on an instance that
  holds none (a new one) it sends the login first and then its request, with the token of
  that login in the header, and the instance holds that token; when that login is
  answered by a failure or by a body without \<^verbatim>\<open>data\<close>, the call rejects and the login is
  all that was sent. So a sequence of endpoint calls on a new instance, whose login is
  answered with \<open>T\<close>, sends the login once, before the first request, and then one
  request per call, each with \<^verbatim>\<open>Authorization: Bearer T\<close>.
\<close>

theorem bearer_header_after_login:
  "(token_server net (trace this) (token_request (config this)) = Inr resp
    \<and> auth_data (data resp) = Some d \<and> access_token d = Some T \<and> T \<noteq> [] \<longrightarrow>
      (\<exists>this1. authenticate (Suc k) (axios_create cfg net) this = Some (Inr (), this1)
         \<and> accessToken this1 = Some T
         \<and> (\<forall>calls j. Authenticate \<notin> set calls \<longrightarrow>
               (\<exists>sent. perform_all j (axios_create cfg net) calls this1 =
                          Some (this1\<lparr>trace := trace this1 @ map Sent sent\<rparr>)
                  \<and> length sent = length calls
                  \<and> (\<forall>req\<in>set sent.
                        authorization req = [(''Authorization'', ''Bearer '' @ T)])))))
   \<and> (truthy_string (accessToken this) \<longrightarrow>
        getHeaders j (axios_create cfg net) this =
          Some (Inr [(''Authorization'', bearer (accessToken this))], this))
   \<and> (\<not> truthy_string (accessToken this) \<longrightarrow>
        getHeaders (Suc k) (axios_create cfg net) this =
          (case authenticate (Suc k) (axios_create cfg net) this of
             None \<Rightarrow> None
           | Some (Inl e, this') \<Rightarrow> Some (Inl e, this')
           | Some (Inr _, this') \<Rightarrow>
               Some (Inr [(''Authorization'', bearer (accessToken this'))], this')))
   \<and> (\<forall>hs this'. \<not> truthy_string (accessToken this)
          \<and> getHeaders (Suc k) (axios_create cfg net) this = Some (Inr hs, this') \<longrightarrow>
          (\<exists>r b. token_server net (trace this) (token_request (config this)) = Inr r
             \<and> auth_data (data r) = Some b
             \<and> trace this' = trace this @ [Sent (token_request (config this))]
             \<and> accessToken this' = access_token b
             \<and> hs = [(''Authorization'', bearer (access_token b))]))
   \<and> (call \<noteq> Authenticate \<and> truthy_string (accessToken this) \<longrightarrow>
        (\<exists>r req. perform j (axios_create cfg net) call this =
                    Some (r, this\<lparr>trace := trace this @ [Sent req]\<rparr>)
           \<and> authorization req = [(''Authorization'', bearer (accessToken this))]))
   \<and> (call \<noteq> Authenticate \<and> \<not> truthy_string (accessToken this)
        \<and> token_server net (trace this) (token_request (config this)) = Inr resp
        \<and> auth_data (data resp) = Some d \<longrightarrow>
        (\<exists>r req. perform (Suc k) (axios_create cfg net) call this =
                    Some (r, this\<lparr>trace := trace this @
                                       [Sent (token_request (config this)), Sent req],
                                 accessToken := access_token d\<rparr>)
           \<and> authorization req = [(''Authorization'', bearer (access_token d))]))
   \<and> (call \<noteq> Authenticate \<and> \<not> truthy_string (accessToken this)
        \<and> token_server net (trace this) (token_request (config this)) = Inl error \<longrightarrow>
        perform (Suc k) (axios_create cfg net) call this =
          Some (Inl (Mapped (handleAxiosError error)),
                this\<lparr>trace := trace this @ [Sent (token_request (config this))]\<rparr>))
   \<and> (call \<noteq> Authenticate \<and> \<not> truthy_string (accessToken this)
        \<and> token_server net (trace this) (token_request (config this)) = Inr resp
        \<and> auth_data (data resp) = None \<longrightarrow>
        perform (Suc k) (axios_create cfg net) call this =
          Some (Inl TypeError,
                this\<lparr>trace := trace this @ [Sent (token_request (config this))]\<rparr>))
   \<and> (\<not> truthy_string (accessToken this) \<and> Authenticate \<notin> set calls \<and> calls \<noteq> []
        \<and> token_server net (trace this) (token_request (config this)) = Inr resp
        \<and> auth_data (data resp) = Some d \<and> access_token d = Some T \<and> T \<noteq> [] \<longrightarrow>
        (\<exists>sent. perform_all (Suc k) (axios_create cfg net) calls this =
                   Some (this\<lparr>trace := trace this @
                                      Sent (token_request (config this)) # map Sent sent,
                             accessToken := Some T\<rparr>)
           \<and> length sent = length calls
           \<and> (\<forall>req\<in>set sent. authorization req = [(''Authorization'', ''Bearer '' @ T)])))"
proof -
  have after_login: "\<exists>this1. authenticate (Suc k) (axios_create cfg net) this = Some (Inr (), this1)
         \<and> accessToken this1 = Some T
         \<and> (\<forall>calls j. Authenticate \<notin> set calls \<longrightarrow>
               (\<exists>sent. perform_all j (axios_create cfg net) calls this1 =
                          Some (this1\<lparr>trace := trace this1 @ map Sent sent\<rparr>)
                  \<and> length sent = length calls
                  \<and> (\<forall>req\<in>set sent.
                        authorization req = [(''Authorization'', ''Bearer '' @ T)])))"
    if a: "token_server net (trace this) (token_request (config this)) = Inr resp
      \<and> auth_data (data resp) = Some d \<and> access_token d = Some T \<and> T \<noteq> []"
  proof -
    let ?s1 = "this\<lparr>trace := trace this @ [Sent (token_request (config this))],
                     accessToken := Some T\<rparr>"
    have login: "authenticate (Suc k) (axios_create cfg net) this = Some (Inr (), ?s1)"
      using a by (simp add: authenticate_created Let_def del: authenticate.simps)
    have held: "truthy_string (accessToken ?s1)" using a by simp
    have "\<exists>sent. perform_all j (axios_create cfg net) calls ?s1 =
                    Some (?s1\<lparr>trace := trace ?s1 @ map Sent sent\<rparr>)
                \<and> length sent = length calls
                \<and> (\<forall>req\<in>set sent. authorization req = [(''Authorization'', ''Bearer '' @ T)])"
      if "Authenticate \<notin> set calls" for calls j
      using perform_all_held [OF held that, of j cfg net] by (simp add: bearer_def)
    with login show ?thesis
      by (intro exI [of _ ?s1]) simp
  qed
  have headers_held: "getHeaders j (axios_create cfg net) this =
          Some (Inr [(''Authorization'', bearer (accessToken this))], this)"
    if "truthy_string (accessToken this)"
    using that by (rule getHeaders_held)
  have headers_lazy: "getHeaders (Suc k) (axios_create cfg net) this =
          (case authenticate (Suc k) (axios_create cfg net) this of
             None \<Rightarrow> None
           | Some (Inl e, this') \<Rightarrow> Some (Inl e, this')
           | Some (Inr _, this') \<Rightarrow>
               Some (Inr [(''Authorization'', bearer (accessToken this'))], this'))"
    if "\<not> truthy_string (accessToken this)"
    using that by (simp add: getHeaders_def await_def del: authenticate.simps)
  have headers_login: "\<exists>r b. token_server net (trace this) (token_request (config this)) = Inr r
             \<and> auth_data (data r) = Some b
             \<and> trace this' = trace this @ [Sent (token_request (config this))]
             \<and> accessToken this' = access_token b
             \<and> hs = [(''Authorization'', bearer (access_token b))]"
    if "\<not> truthy_string (accessToken this)
          \<and> getHeaders (Suc k) (axios_create cfg net) this = Some (Inr hs, this')" for hs this'
    using that by (auto simp: getHeaders_created Let_def split: sum.splits option.splits)
  have call_held: "\<exists>r req. perform j (axios_create cfg net) call this =
                    Some (r, this\<lparr>trace := trace this @ [Sent req]\<rparr>)
           \<and> authorization req = [(''Authorization'', bearer (accessToken this))]"
    if "call \<noteq> Authenticate \<and> truthy_string (accessToken this)"
    using that perform_held by blast
  have call_lazy: "\<exists>r req. perform (Suc k) (axios_create cfg net) call this =
                    Some (r, this\<lparr>trace := trace this @
                                       [Sent (token_request (config this)), Sent req],
                                 accessToken := access_token d\<rparr>)
           \<and> authorization req = [(''Authorization'', bearer (access_token d))]"
    if "call \<noteq> Authenticate \<and> \<not> truthy_string (accessToken this)
        \<and> token_server net (trace this) (token_request (config this)) = Inr resp
        \<and> auth_data (data resp) = Some d"
    using that perform_lazy by blast
  have call_rejected: "perform (Suc k) (axios_create cfg net) call this =
          Some (Inl (Mapped (handleAxiosError error)),
                this\<lparr>trace := trace this @ [Sent (token_request (config this))]\<rparr>)"
    if "call \<noteq> Authenticate \<and> \<not> truthy_string (accessToken this)
        \<and> token_server net (trace this) (token_request (config this)) = Inl error"
    using that perform_login_rejected by blast
  have call_without_data: "perform (Suc k) (axios_create cfg net) call this =
          Some (Inl TypeError,
                this\<lparr>trace := trace this @ [Sent (token_request (config this))]\<rparr>)"
    if "call \<noteq> Authenticate \<and> \<not> truthy_string (accessToken this)
        \<and> token_server net (trace this) (token_request (config this)) = Inr resp
        \<and> auth_data (data resp) = None"
    using that perform_login_without_data by blast
  have calls_lazy: "\<exists>sent. perform_all (Suc k) (axios_create cfg net) calls this =
                   Some (this\<lparr>trace := trace this @
                                      Sent (token_request (config this)) # map Sent sent,
                             accessToken := Some T\<rparr>)
           \<and> length sent = length calls
           \<and> (\<forall>req\<in>set sent. authorization req = [(''Authorization'', ''Bearer '' @ T)])"
    if "\<not> truthy_string (accessToken this) \<and> Authenticate \<notin> set calls \<and> calls \<noteq> []
        \<and> token_server net (trace this) (token_request (config this)) = Inr resp
        \<and> auth_data (data resp) = Some d \<and> access_token d = Some T \<and> T \<noteq> []"
    using that perform_all_lazy by blast
  from after_login headers_held headers_lazy headers_login call_held call_lazy call_rejected
    call_without_data calls_lazy
  show ?thesis
    by (intro conjI impI allI)
qed

theorem bearer_header_after_login_witness:
  "(\<exists>this1 sent.
      authenticate 1 (axios_create mockConfig (login_net login_ok))
        (new_AiraloService mockConfig) = Some (Inr (), this1)
      \<and> accessToken this1 = Some ''T''
      \<and> perform_all 1 (axios_create mockConfig (login_net login_ok))
          [GetBalance, OptOutNotifications] this1 =
          Some (this1\<lparr>trace := trace this1 @ map Sent sent\<rparr>)
      \<and> length sent = 2
      \<and> (\<forall>req\<in>set sent. authorization req = [(''Authorization'', ''Bearer T'')]))
   \<and> getHeaders 1 (axios_create mockConfig (login_net login_ok)) logged_in =
        Some (Inr [(''Authorization'', ''Bearer T0'')], logged_in)
   \<and> getHeaders 1 (axios_create mockConfig (login_net login_ok)) (new_AiraloService mockConfig) =
        Some (Inr [(''Authorization'', ''Bearer T'')],
              \<lparr> config = mockConfig, accessToken = Some ''T'',
                trace = [Sent (token_request mockConfig)] \<rparr>)
   \<and> (\<exists>r req. perform 1 (axios_create mockConfig (login_net login_ok)) GetBalance logged_in =
          Some (r, \<lparr> config = mockConfig, accessToken = Some ''T0'', trace = [Sent req] \<rparr>)
        \<and> authorization req = [(''Authorization'', ''Bearer T0'')])
   \<and> (\<exists>r req. perform 1 (axios_create mockConfig (login_net login_ok)) GetBalance
          (new_AiraloService mockConfig) =
          Some (r, \<lparr> config = mockConfig, accessToken = Some ''T'',
                     trace = [Sent (token_request mockConfig), Sent req] \<rparr>)
        \<and> authorization req = [(''Authorization'', ''Bearer T'')])
   \<and> perform 1 (axios_create mockConfig (login_fails unauthorized)) GetBalance
        (new_AiraloService mockConfig) =
        Some (Inl (Mapped (handleAxiosError unauthorized)),
              \<lparr> config = mockConfig, accessToken = None,
                trace = [Sent (token_request mockConfig)] \<rparr>)
   \<and> perform 1 (axios_create mockConfig (login_net login_without_data)) GetBalance
        (new_AiraloService mockConfig) =
        Some (Inl TypeError,
              \<lparr> config = mockConfig, accessToken = None,
                trace = [Sent (token_request mockConfig)] \<rparr>)
   \<and> (\<exists>sent. perform_all 1 (axios_create mockConfig (login_net login_ok))
          [GetBalance, GetCompatibleDevices] (new_AiraloService mockConfig) =
          Some \<lparr> config = mockConfig, accessToken = Some ''T'',
                 trace = Sent (token_request mockConfig) # map Sent sent \<rparr>
        \<and> length sent = 2
        \<and> (\<forall>req\<in>set sent. authorization req = [(''Authorization'', ''Bearer T'')]))"
proof -
  let ?ok = "login_net login_ok"
  let ?new = "new_AiraloService mockConfig"
  let ?resp = "\<lparr> data = login_ok \<rparr>"
  let ?d = "\<lparr> access_token = Some ''T'', token_type = Some ''Bearer'', expires_in = Some 3600 \<rparr>"
  note fresh = bearer_header_after_login [where net = ?ok and this = ?new and resp = ?resp
      and d = ?d and T = "''T''" and k = 0 and cfg = mockConfig and call = GetBalance
      and calls = "[GetBalance, GetCompatibleDevices]"]
  note held = bearer_header_after_login [where net = ?ok and this = logged_in and j = 1
      and cfg = mockConfig and call = GetBalance]
  note failed = bearer_header_after_login [where net = "login_fails unauthorized"
      and this = ?new and error = unauthorized and k = 0 and cfg = mockConfig
      and call = GetBalance]
  note without = bearer_header_after_login [where net = "login_net login_without_data"
      and this = ?new and resp = "\<lparr> data = login_without_data \<rparr>" and k = 0
      and cfg = mockConfig and call = GetBalance]
  have login: "token_server ?ok (trace ?new) (token_request (config ?new)) = Inr ?resp
      \<and> auth_data (data ?resp) = Some ?d \<and> access_token ?d = Some ''T'' \<and> ''T'' \<noteq> []"
    by (simp add: login_net_def login_ok_def)
  have new: "\<not> truthy_string (accessToken ?new)" "trace ?new = []" "config ?new = mockConfig"
    by (simp_all add: new_AiraloService_def)
  have logged_in: "truthy_string (accessToken logged_in)" "accessToken logged_in = Some ''T0''"
    by (simp_all add: logged_in_def)
  from fresh login obtain this1 where 1:
    "authenticate (Suc 0) (axios_create mockConfig ?ok) ?new = Some (Inr (), this1)"
    "accessToken this1 = Some ''T''"
    and 2: "\<forall>calls j. Authenticate \<notin> set calls \<longrightarrow>
               (\<exists>sent. perform_all j (axios_create mockConfig ?ok) calls this1 =
                          Some (this1\<lparr>trace := trace this1 @ map Sent sent\<rparr>)
                  \<and> length sent = length calls
                  \<and> (\<forall>req\<in>set sent. authorization req = [(''Authorization'', ''Bearer '' @ ''T'')]))"
    by blast
  from 2 [rule_format, of "[GetBalance, OptOutNotifications]" 1]
  obtain sent where 3: "perform_all 1 (axios_create mockConfig ?ok)
        [GetBalance, OptOutNotifications] this1 =
          Some (this1\<lparr>trace := trace this1 @ map Sent sent\<rparr>)"
      "length sent = 2"
      "\<forall>req\<in>set sent. authorization req = [(''Authorization'', ''Bearer T'')]"
    by auto
  from 1 3 have a: "\<exists>this1 sent.
      authenticate 1 (axios_create mockConfig ?ok) ?new = Some (Inr (), this1)
      \<and> accessToken this1 = Some ''T''
      \<and> perform_all 1 (axios_create mockConfig ?ok) [GetBalance, OptOutNotifications] this1 =
          Some (this1\<lparr>trace := trace this1 @ map Sent sent\<rparr>)
      \<and> length sent = 2
      \<and> (\<forall>req\<in>set sent. authorization req = [(''Authorization'', ''Bearer T'')])"
    unfolding One_nat_def by blast
  from held logged_in have b: "getHeaders 1 (axios_create mockConfig ?ok) logged_in =
        Some (Inr [(''Authorization'', ''Bearer T0'')], logged_in)"
    by (simp add: bearer_def)
  from fresh new(1) have "getHeaders (Suc 0) (axios_create mockConfig ?ok) ?new =
          (case authenticate (Suc 0) (axios_create mockConfig ?ok) ?new of
             None \<Rightarrow> None
           | Some (Inl e, this') \<Rightarrow> Some (Inl e, this')
           | Some (Inr _, this') \<Rightarrow>
               Some (Inr [(''Authorization'', bearer (accessToken this'))], this'))"
    by blast
  then have c: "getHeaders 1 (axios_create mockConfig ?ok) ?new =
        Some (Inr [(''Authorization'', ''Bearer T'')],
              \<lparr> config = mockConfig, accessToken = Some ''T'',
                trace = [Sent (token_request mockConfig)] \<rparr>)"
    by (simp add: authenticate_created new_AiraloService_def login_net_def login_ok_def
        bearer_def Let_def del: authenticate.simps)
  from held logged_in(1) have "\<exists>r req. perform 1 (axios_create mockConfig ?ok) GetBalance logged_in =
          Some (r, logged_in\<lparr>trace := trace logged_in @ [Sent req]\<rparr>)
        \<and> authorization req = [(''Authorization'', bearer (accessToken logged_in))]"
    by blast
  then have d: "\<exists>r req. perform 1 (axios_create mockConfig ?ok) GetBalance logged_in =
          Some (r, \<lparr> config = mockConfig, accessToken = Some ''T0'', trace = [Sent req] \<rparr>)
        \<and> authorization req = [(''Authorization'', ''Bearer T0'')]"
    by (simp add: logged_in_def bearer_def)
  from fresh new(1) login have "\<exists>r req. perform (Suc 0) (axios_create mockConfig ?ok) GetBalance ?new =
          Some (r, ?new\<lparr>trace := trace ?new @ [Sent (token_request (config ?new)), Sent req],
                        accessToken := access_token ?d\<rparr>)
        \<and> authorization req = [(''Authorization'', bearer (access_token ?d))]"
    by blast
  then have e: "\<exists>r req. perform 1 (axios_create mockConfig ?ok) GetBalance ?new =
          Some (r, \<lparr> config = mockConfig, accessToken = Some ''T'',
                     trace = [Sent (token_request mockConfig), Sent req] \<rparr>)
        \<and> authorization req = [(''Authorization'', ''Bearer T'')]"
    by (simp add: new_AiraloService_def bearer_def)
  have "token_server (login_fails unauthorized) (trace ?new) (token_request (config ?new)) =
      Inl unauthorized"
    by (simp add: login_fails_def)
  with failed new(1) have "perform (Suc 0) (axios_create mockConfig (login_fails unauthorized))
        GetBalance ?new =
        Some (Inl (Mapped (handleAxiosError unauthorized)),
              ?new\<lparr>trace := trace ?new @ [Sent (token_request (config ?new))]\<rparr>)"
    by blast
  then have f: "perform 1 (axios_create mockConfig (login_fails unauthorized)) GetBalance ?new =
        Some (Inl (Mapped (handleAxiosError unauthorized)),
              \<lparr> config = mockConfig, accessToken = None,
                trace = [Sent (token_request mockConfig)] \<rparr>)"
    by (simp add: new_AiraloService_def)
  have "token_server (login_net login_without_data) (trace ?new) (token_request (config ?new)) =
      Inr \<lparr> data = login_without_data \<rparr>
      \<and> auth_data (data \<lparr> data = login_without_data \<rparr>) = None"
    by (simp add: login_net_def login_without_data_def)
  with without new(1) have "perform (Suc 0) (axios_create mockConfig (login_net login_without_data))
        GetBalance ?new =
        Some (Inl TypeError, ?new\<lparr>trace := trace ?new @ [Sent (token_request (config ?new))]\<rparr>)"
    by blast
  then have g: "perform 1 (axios_create mockConfig (login_net login_without_data)) GetBalance ?new =
        Some (Inl TypeError,
              \<lparr> config = mockConfig, accessToken = None,
                trace = [Sent (token_request mockConfig)] \<rparr>)"
    by (simp add: new_AiraloService_def)
  have "Authenticate \<notin> set [GetBalance, GetCompatibleDevices]
      \<and> [GetBalance, GetCompatibleDevices] \<noteq> []"
    by simp
  with fresh new(1) login have "\<exists>sent. perform_all (Suc 0) (axios_create mockConfig ?ok)
          [GetBalance, GetCompatibleDevices] ?new =
          Some (?new\<lparr>trace := trace ?new @ Sent (token_request (config ?new)) # map Sent sent,
                      accessToken := Some ''T''\<rparr>)
        \<and> length sent = length [GetBalance, GetCompatibleDevices]
        \<and> (\<forall>req\<in>set sent. authorization req = [(''Authorization'', ''Bearer '' @ ''T'')])"
    by blast
  then have h: "\<exists>sent. perform_all 1 (axios_create mockConfig ?ok)
          [GetBalance, GetCompatibleDevices] ?new =
          Some \<lparr> config = mockConfig, accessToken = Some ''T'',
                 trace = Sent (token_request mockConfig) # map Sent sent \<rparr>
        \<and> length sent = 2
        \<and> (\<forall>req\<in>set sent. authorization req = [(''Authorization'', ''Bearer T'')])"
    by (simp add: new_AiraloService_def numeral_2_eq_2 del: perform_all.simps)
  from a b c d e f g h show ?thesis
    by (intro conjI)
qed

lemma getOrders_held:
  assumes "truthy_string (accessToken this)"
  shows "getOrders k (axios_create cfg net) ps this =
           (let req = orders_request [(''Authorization'', bearer (accessToken this))] ps in
            Some (case api_server net (trace this) req of
                    Inl e \<Rightarrow> Inl (Mapped (handleAxiosError e))
                  | Inr r \<Rightarrow> Inr (data r),
                  this\<lparr>trace := trace this @ [Sent req]\<rparr>))"
  by (simp add: getOrders_def endpoint_held [OF assms] Let_def split: sum.splits)

lemma getOrders_lazy:
  assumes "\<not> truthy_string (accessToken this)"
  shows "getOrders (Suc k) (axios_create cfg net) ps this =
           (let login = token_request (config this); tr = trace this @ [Sent login] in
            case token_server net (trace this) login of
              Inl e \<Rightarrow> Some (Inl (Mapped (handleAxiosError e)), this\<lparr>trace := tr\<rparr>)
            | Inr a \<Rightarrow>
                (case auth_data (data a) of
                   None \<Rightarrow> Some (Inl TypeError, this\<lparr>trace := tr\<rparr>)
                 | Some d \<Rightarrow>
                     (let req = orders_request [(''Authorization'', bearer (access_token d))] ps in
                      Some (case api_server net tr req of
                              Inl e \<Rightarrow> Inl (Mapped (handleAxiosError e))
                            | Inr r \<Rightarrow> Inr (data r),
                            this\<lparr>trace := tr @ [Sent req], accessToken := access_token d\<rparr>))))"
  by (simp add: getOrders_def endpoint_lazy [OF assms] Let_def split: sum.splits option.splits)

text \<open>
  C8 (as amended). A call of \<^verbatim>\<open>getOrders\<close> issues one request, \<^verbatim>\<open>GET /v2/orders\<close>, whose
  one header is the authorization header and whose parameters are, in this order,
  \<^verbatim>\<open>include\<close>, \<^verbatim>\<open>filter[created_at]\<close>, \<^verbatim>\<open>filter[order_status]\<close>, \<^verbatim>\<open>filter[description]\<close>,
  \<^verbatim>\<open>limit\<close> and \<^verbatim>\<open>page\<close>, with the values of the members \<^verbatim>\<open>include\<close>, \<^verbatim>\<open>createdAt\<close>,
  \<^verbatim>\<open>orderStatus\<close>, \<^verbatim>\<open>description\<close>, \<^verbatim>\<open>limit\<close> and \<^verbatim>\<open>page\<close> of its argument; the call
  resolves with the payload of the answer or rejects with the mapped error of the
  failure. On an instance that holds a token this request is all that is sent. On an
  instance that holds none the login is sent first: answered with \<^verbatim>\<open>data\<close>, the request
  follows with the token of that login; answered by a failure or without \<^verbatim>\<open>data\<close>, the
  call rejects and no request for orders is sent. For
  \<^verbatim>\<open>{limit: 10, page: 1, orderStatus: 'completed'}\<close> the parameters that have a value are,
  in this order, \<^verbatim>\<open>filter[order_status]=completed\<close>, \<^verbatim>\<open>limit=10\<close> and \<^verbatim>\<open>page=1\<close>.
\<close>

theorem getOrders_request:
  "(let request = (\<lambda>token.
          \<lparr> verb = GET, url = ''/v2/orders'',
            headers = [(''Authorization'', bearer token)],
            params = [(''include'', map_option PString (include' ps)),
                      (''filter[created_at]'', map_option PString (createdAt ps)),
                      (''filter[order_status]'', map_option PString (orderStatus ps)),
                      (''filter[description]'', map_option PString (description ps)),
                      (''limit'', map_option PNumber (limit ps)),
                      (''page'', map_option PNumber (page ps))],
            req_data = NoData \<rparr>);
        login = token_request (config this);
        answered = (\<lambda>tr token.
          case api_server net tr (request token) of
            Inl e \<Rightarrow> Inl (Mapped (handleAxiosError e))
          | Inr r \<Rightarrow> Inr (data r))
    in (truthy_string (accessToken this) \<longrightarrow>
          getOrders k (axios_create cfg net) ps this =
            Some (answered (trace this) (accessToken this),
                  this\<lparr>trace := trace this @ [Sent (request (accessToken this))]\<rparr>))
     \<and> (\<not> truthy_string (accessToken this)
          \<and> token_server net (trace this) login = Inr a \<and> auth_data (data a) = Some d \<longrightarrow>
          getOrders (Suc k) (axios_create cfg net) ps this =
            Some (answered (trace this @ [Sent login]) (access_token d),
                  this\<lparr>trace := trace this @ [Sent login, Sent (request (access_token d))],
                       accessToken := access_token d\<rparr>))
     \<and> (\<not> truthy_string (accessToken this)
          \<and> token_server net (trace this) login = Inl error \<longrightarrow>
          getOrders (Suc k) (axios_create cfg net) ps this =
            Some (Inl (Mapped (handleAxiosError error)),
                  this\<lparr>trace := trace this @ [Sent login]\<rparr>))
     \<and> (\<not> truthy_string (accessToken this)
          \<and> token_server net (trace this) login = Inr a \<and> auth_data (data a) = None \<longrightarrow>
          getOrders (Suc k) (axios_create cfg net) ps this =
            Some (Inl TypeError, this\<lparr>trace := trace this @ [Sent login]\<rparr>))
     \<and> (ps = \<lparr> include' = None, createdAt = None, orderStatus = Some ''completed'',
                description = None, limit = Some 10, page = Some 1 \<rparr> \<longrightarrow>
          query (request token) =
            [(''filter[order_status]'', PString ''completed''),
             (''limit'', PNumber 10), (''page'', PNumber 1)]))"
proof -
  have held: "getOrders k (axios_create cfg net) ps this =
            Some (case api_server net (trace this)
                         (orders_request [(''Authorization'', bearer (accessToken this))] ps) of
                    Inl e \<Rightarrow> Inl (Mapped (handleAxiosError e))
                  | Inr r \<Rightarrow> Inr (data r),
                  this\<lparr>trace := trace this @
                    [Sent (orders_request [(''Authorization'', bearer (accessToken this))] ps)]\<rparr>)"
    if "truthy_string (accessToken this)"
    using getOrders_held [OF that, of k cfg net ps] by (simp add: Let_def)
  have lazy: "getOrders (Suc k) (axios_create cfg net) ps this =
            Some (case api_server net (trace this @ [Sent (token_request (config this))])
                         (orders_request [(''Authorization'', bearer (access_token d))] ps) of
                    Inl e \<Rightarrow> Inl (Mapped (handleAxiosError e))
                  | Inr r \<Rightarrow> Inr (data r),
                  this\<lparr>trace := trace this @
                    [Sent (token_request (config this)),
                     Sent (orders_request [(''Authorization'', bearer (access_token d))] ps)],
                       accessToken := access_token d\<rparr>)"
    if "\<not> truthy_string (accessToken this)
          \<and> token_server net (trace this) (token_request (config this)) = Inr a
          \<and> auth_data (data a) = Some d"
    using that getOrders_lazy [of this k cfg net ps] by (simp add: Let_def)
  have rejected: "getOrders (Suc k) (axios_create cfg net) ps this =
            Some (Inl (Mapped (handleAxiosError error)),
                  this\<lparr>trace := trace this @ [Sent (token_request (config this))]\<rparr>)"
    if "\<not> truthy_string (accessToken this)
          \<and> token_server net (trace this) (token_request (config this)) = Inl error"
    using that getOrders_lazy [of this k cfg net ps] by (simp add: Let_def)
  have without_data: "getOrders (Suc k) (axios_create cfg net) ps this =
            Some (Inl TypeError, this\<lparr>trace := trace this @ [Sent (token_request (config this))]\<rparr>)"
    if "\<not> truthy_string (accessToken this)
          \<and> token_server net (trace this) (token_request (config this)) = Inr a
          \<and> auth_data (data a) = None"
    using that getOrders_lazy [of this k cfg net ps] by (simp add: Let_def)
  have scenario: "query (orders_request [(''Authorization'', bearer token)] ps) =
            [(''filter[order_status]'', PString ''completed''),
             (''limit'', PNumber 10), (''page'', PNumber 1)]"
    if "ps = \<lparr> include' = None, createdAt = None, orderStatus = Some ''completed'',
                description = None, limit = Some 10, page = Some 1 \<rparr>"
    using that by (simp add: query_def orders_request_def List.map_filter_def)
  from held lazy rejected without_data scenario show ?thesis
    unfolding Let_def orders_request_def by (intro conjI impI)
qed

theorem getOrders_request_witness:
  "getOrders 1 (axios_create mockConfig (login_net login_ok))
     \<lparr> include' = None, createdAt = None, orderStatus = Some ''completed'',
       description = None, limit = Some 10, page = Some 1 \<rparr> (new_AiraloService mockConfig) =
   Some (Inr ''payload'',
         \<lparr> config = mockConfig, accessToken = Some ''T'',
           trace =
             [Sent (token_request mockConfig),
              Sent \<lparr> verb = GET, url = ''/v2/orders'',
                     headers = [(''Authorization'', ''Bearer T'')],
                     params = [(''include'', None),
                               (''filter[created_at]'', None),
                               (''filter[order_status]'', Some (PString ''completed'')),
                               (''filter[description]'', None),
                               (''limit'', Some (PNumber 10)),
                               (''page'', Some (PNumber 1))],
                     req_data = NoData \<rparr>] \<rparr>)
   \<and> getOrders 1 (axios_create mockConfig (login_net login_ok))
     \<lparr> include' = None, createdAt = None, orderStatus = Some ''completed'',
       description = None, limit = Some 10, page = Some 1 \<rparr> logged_in =
   Some (Inr ''payload'',
         \<lparr> config = mockConfig, accessToken = Some ''T0'',
           trace =
             [Sent \<lparr> verb = GET, url = ''/v2/orders'',
                     headers = [(''Authorization'', ''Bearer T0'')],
                     params = [(''include'', None),
                               (''filter[created_at]'', None),
                               (''filter[order_status]'', Some (PString ''completed'')),
                               (''filter[description]'', None),
                               (''limit'', Some (PNumber 10)),
                               (''page'', Some (PNumber 1))],
                     req_data = NoData \<rparr>] \<rparr>)
   \<and> getOrders 1 (axios_create mockConfig (login_fails unauthorized))
     \<lparr> include' = None, createdAt = None, orderStatus = Some ''completed'',
       description = None, limit = Some 10, page = Some 1 \<rparr> (new_AiraloService mockConfig) =
   Some (Inl (Mapped (handleAxiosError unauthorized)),
         \<lparr> config = mockConfig, accessToken = None, trace = [Sent (token_request mockConfig)] \<rparr>)
   \<and> getOrders 1 (axios_create mockConfig (login_net login_without_data))
     \<lparr> include' = None, createdAt = None, orderStatus = Some ''completed'',
       description = None, limit = Some 10, page = Some 1 \<rparr> (new_AiraloService mockConfig) =
   Some (Inl TypeError,
         \<lparr> config = mockConfig, accessToken = None, trace = [Sent (token_request mockConfig)] \<rparr>)
   \<and> query \<lparr> verb = GET, url = ''/v2/orders'',
             headers = [(''Authorization'', ''Bearer T'')],
             params = [(''include'', None),
                       (''filter[created_at]'', None),
                       (''filter[order_status]'', Some (PString ''completed'')),
                       (''filter[description]'', None),
                       (''limit'', Some (PNumber 10)),
                       (''page'', Some (PNumber 1))],
             req_data = NoData \<rparr> =
       [(''filter[order_status]'', PString ''completed''),
        (''limit'', PNumber 10), (''page'', PNumber 1)]"
  using getOrders_request [where this = "new_AiraloService mockConfig" and k = 0
      and cfg = mockConfig and net = "login_net login_ok"
      and a = "\<lparr> data = login_ok \<rparr>"
      and d = "\<lparr> access_token = Some ''T'', token_type = Some ''Bearer'',
                 expires_in = Some 3600 \<rparr>"
      and token = "Some ''T''"
      and ps = "\<lparr> include' = None, createdAt = None, orderStatus = Some ''completed'',
         description = None, limit = Some 10, page = Some 1 \<rparr>"]
    getOrders_request [where this = logged_in and k = 1
      and cfg = mockConfig and net = "login_net login_ok"
      and ps = "\<lparr> include' = None, createdAt = None, orderStatus = Some ''completed'',
         description = None, limit = Some 10, page = Some 1 \<rparr>"]
    getOrders_request [where this = "new_AiraloService mockConfig" and k = 0
      and cfg = mockConfig and net = "login_fails unauthorized" and error = unauthorized
      and ps = "\<lparr> include' = None, createdAt = None, orderStatus = Some ''completed'',
         description = None, limit = Some 10, page = Some 1 \<rparr>"]
    getOrders_request [where this = "new_AiraloService mockConfig" and k = 0
      and cfg = mockConfig and net = "login_net login_without_data"
      and a = "\<lparr> data = login_without_data \<rparr>"
      and ps = "\<lparr> include' = None, createdAt = None, orderStatus = Some ''completed'',
         description = None, limit = Some 10, page = Some 1 \<rparr>"]
  by (simp add: Let_def new_AiraloService_def logged_in_def login_net_def login_fails_def
      login_ok_def login_without_data_def bearer_def)

text \<open>
  C8 as stated fails on its own example: a new service whose login is answered with the
  token \<open>T\<close> sends, for \<^verbatim>\<open>getOrders({limit: 10, page: 1, orderStatus: 'completed'})\<close>, the
  request whose parameters with a value are \<^verbatim>\<open>filter[order_status]=completed\<close>,
  \<^verbatim>\<open>limit=10\<close>, \<^verbatim>\<open>page=1\<close> in this order, the order of the keys in the source, and not
  \<^verbatim>\<open>limit=10\<close>, \<^verbatim>\<open>page=1\<close>, \<^verbatim>\<open>filter[order_status]=completed\<close> as in the request line of
  the claim.
\<close>

theorem getOrders_query_order_counterexample:
  "getOrders 1 (axios_create mockConfig (login_net login_ok))
     \<lparr> include' = None, createdAt = None, orderStatus = Some ''completed'',
       description = None, limit = Some 10, page = Some 1 \<rparr> (new_AiraloService mockConfig) =
   Some (Inr ''payload'',
         \<lparr> config = mockConfig, accessToken = Some ''T'',
           trace =
             [Sent (token_request mockConfig),
              Sent (orders_request [(''Authorization'', ''Bearer T'')]
                      \<lparr> include' = None, createdAt = None, orderStatus = Some ''completed'',
                        description = None, limit = Some 10, page = Some 1 \<rparr>)] \<rparr>)
   \<and> query (orders_request [(''Authorization'', ''Bearer T'')]
              \<lparr> include' = None, createdAt = None, orderStatus = Some ''completed'',
                description = None, limit = Some 10, page = Some 1 \<rparr>) =
       [(''filter[order_status]'', PString ''completed''),
        (''limit'', PNumber 10), (''page'', PNumber 1)]
   \<and> query (orders_request [(''Authorization'', ''Bearer T'')]
              \<lparr> include' = None, createdAt = None, orderStatus = Some ''completed'',
                description = None, limit = Some 10, page = Some 1 \<rparr>) \<noteq>
       [(''limit'', PNumber 10), (''page'', PNumber 1),
        (''filter[order_status]'', PString ''completed'')]"
  unfolding One_nat_def
  by (simp add: getOrders_lazy new_AiraloService_def login_net_def login_ok_def Let_def
      bearer_def query_def orders_request_def List.map_filter_def)

section \<open>Claims on the state of an instance\<close>





















end
